theory Spec2Isabelle
  imports Complex_Main
begin

section \<open>JavaScript values used by the Tonnetz engine\<close>

text \<open>
  The engine of \<^verbatim>\<open>src/game.js\<close> works on JavaScript numbers. Loop counters, grid
  indices and grid dimensions are non-negative integers (\<open>nat\<close>); pitch classes and
  MIDI notes are integers (\<open>int\<close>); world coordinates are modelled as real numbers.
  The point-in-triangle test takes its arithmetic as a parameter, so that what is proved
  of it holds with the rounding of IEEE doubles as well; everywhere else the arithmetic
  on coordinates is the exact one of the reals.

  A read of a property of \<^verbatim>\<open>undefined\<close> throws a \<^verbatim>\<open>TypeError\<close>; a function
  that can throw returns \<open>error + 'a\<close>, with \<open>Inl\<close> for the exception.
  \<open>UndefinedValue\<close> marks an array read outside the array whose \<^verbatim>\<open>undefined\<close>
  the program would go on computing with (as \<^verbatim>\<open>NaN\<close> or as the text
  \<^verbatim>\<open>"undefined"\<close>): the model follows the program no further on such a path, and a
  result \<open>Inr\<close> says that the path was not taken.
\<close>

datatype error = TypeError | UndefinedValue

definition bind :: "error + 'a \<Rightarrow> ('a \<Rightarrow> error + 'b) \<Rightarrow> error + 'b" where
  "bind m f = (case m of Inl e \<Rightarrow> Inl e | Inr v \<Rightarrow> f v)"

text \<open>The remainder operator \<^verbatim>\<open>%\<close> truncates towards zero: the result has the sign of
  the dividend.\<close>

definition js_rem :: "int \<Rightarrow> int \<Rightarrow> int" where
  "js_rem a b = sgn a * (\<bar>a\<bar> mod \<bar>b\<bar>)"

text \<open>A \<^verbatim>\<open>for (let i = 0; i < n; i++)\<close> loop whose body may throw: the body runs for
  each index in turn on the state built so far, and the first exception ends the loop.\<close>

fun for_loop :: "nat list \<Rightarrow> (nat \<Rightarrow> 's \<Rightarrow> error + 's) \<Rightarrow> 's \<Rightarrow> error + 's" where
  "for_loop [] body s = Inr s"
| "for_loop (i # is) body s = bind (body i s) (for_loop is body)"

text \<open>An array read \<^verbatim>\<open>a[i]\<close> gives \<^verbatim>\<open>undefined\<close> (here \<open>None\<close>) outside the array.\<close>

definition js_index :: "'a list \<Rightarrow> nat \<Rightarrow> 'a option" where
  "js_index xs i = (if i < length xs then Some (xs ! i) else None)"

section \<open>Data model\<close>

record gridcell =
  pitchClass :: int
  noteName :: string

record point =
  x :: real
  z :: real

record pvertex = point +
  pitchClass :: int

record vertex = pvertex +
  noteName :: string

record 'v triangle =
  type :: string
  vertices :: "'v list"
  center :: point
  chord :: "int list"
  chordName :: string
  row :: nat
  col :: nat

text \<open>
  The fields of \<^verbatim>\<open>TonnetzSystem\<close>. The class exists in two versions in the repository:
  the one of \<^verbatim>\<open>src/unnamed/part_000\<close> has the fields of \<open>TonnetzBase\<close>, with a grid of
  plain pitch classes and vertices without a note name; the one of \<^verbatim>\<open>src/game.js\<close>
  adds the table \<open>pitchClassToName\<close>, stores \<open>gridcell\<close> objects in the grid and note
  names in the vertices.
\<close>

record ('c, 'v) TonnetzBase =
  noteNames :: "string list"
  gridWidth :: nat
  gridHeight :: nat
  triangleSize :: real
  fifthInterval :: int
  majorThirdInterval :: int
  minorThirdInterval :: int
  grid :: "'c list list"
  triangles :: "'v triangle list"

record ('c, 'v) TonnetzNamed = "('c, 'v) TonnetzBase" +
  pitchClassToName :: "string list"

type_synonym TonnetzSystem = "(gridcell, vertex) TonnetzNamed"

section \<open>TonnetzSystem of src/game.js\<close>

text \<open>\<^verbatim>\<open>getNoteName\<close>: the table entry, or \<^verbatim>\<open>'?'\<close> when the table has none.\<close>

definition getNoteName :: "TonnetzSystem \<Rightarrow> int \<Rightarrow> string" where
  "getNoteName this pc =
     (case (if 0 \<le> pc then js_index (pitchClassToName this) (nat pc) else None) of
        None \<Rightarrow> ''?''
      | Some name \<Rightarrow> name)"

text \<open>The two loops of \<^verbatim>\<open>generateGrid\<close>: row \<open>row\<close> of the array gets one cell for each
  column from 0 to \<open>gridWidth\<close>, for each row from 0 to \<open>gridHeight\<close>.\<close>

definition gridRows :: "TonnetzSystem \<Rightarrow> gridcell list list" where
  "gridRows this =
     map (\<lambda>r. map (\<lambda>c.
            let pc = js_rem (js_rem (int r * majorThirdInterval this + int c * fifthInterval this) 12 + 12) 12;
                name = getNoteName this pc
            in \<lparr>gridcell.pitchClass = pc, gridcell.noteName = name\<rparr>)
          [0 ..< gridWidth this + 1])
       [0 ..< gridHeight this + 1]"

text \<open>A read \<^verbatim>\<open>grid[row][col]\<close> whose value is only passed on: a missing row throws, a
  missing column gives \<^verbatim>\<open>undefined\<close> (here \<open>None\<close>).\<close>

definition readCell :: "'c list list \<Rightarrow> nat \<Rightarrow> nat \<Rightarrow> error + 'c option" where
  "readCell g r c =
     (case js_index g r of None \<Rightarrow> Inl TypeError | Some line \<Rightarrow> Inr (js_index line c))"

text \<open>\<^verbatim>\<open>generateGrid\<close>: after the loops it logs \<^verbatim>\<open>grid[0][0]\<close>, \<^verbatim>\<open>grid[0][1]\<close> and
  \<^verbatim>\<open>grid[1][0]\<close>, and then returns the grid. The last of the three reads throws when the
  grid has one row only, that is when \<open>gridHeight\<close> is 0.\<close>

definition generateGrid :: "TonnetzSystem \<Rightarrow> error + gridcell list list" where
  "generateGrid this =
     (let grid = gridRows this
      in bind (readCell grid 0 0) (\<lambda>sample0.
         bind (readCell grid 0 1) (\<lambda>sample1.
         bind (readCell grid 1 0) (\<lambda>sample2.
           Inr grid))))"

definition getVertexPosition :: "real \<Rightarrow> real \<Rightarrow> nat \<Rightarrow> nat \<Rightarrow> point" where
  "getVertexPosition triWidth triHeight r c =
     \<lparr>x = real c * triWidth + real r * (triWidth / 2), z = real r * triHeight\<rparr>"

text \<open>\<^verbatim>\<open>this.grid[row][col]\<close> followed by a property read: both throw outside the grid.\<close>

definition gridAt :: "'c list list \<Rightarrow> nat \<Rightarrow> nat \<Rightarrow> error + 'c" where
  "gridAt g r c =
     (case js_index g r of
        None \<Rightarrow> Inl TypeError
      | Some line \<Rightarrow> (case js_index line c of None \<Rightarrow> Inl TypeError | Some cell \<Rightarrow> Inr cell))"

definition mkVertex :: "point \<Rightarrow> gridcell \<Rightarrow> vertex" where
  "mkVertex v cell =
     \<lparr>x = x v, z = z v, pitchClass = gridcell.pitchClass cell, noteName = gridcell.noteName cell\<rparr>"

definition majorTriangle ::
  "nat \<Rightarrow> nat \<Rightarrow> point \<Rightarrow> point \<Rightarrow> point \<Rightarrow> gridcell \<Rightarrow> gridcell \<Rightarrow> gridcell \<Rightarrow> vertex triangle" where
  "majorTriangle r c v0 v1 v2 cell0 cell1 cell2 =
     \<lparr>type = ''major'',
      vertices = [mkVertex v0 cell0, mkVertex v1 cell1, mkVertex v2 cell2],
      center = \<lparr>x = (x v0 + x v1 + x v2) / 3, z = (z v0 + z v1 + z v2) / 3\<rparr>,
      chord = [60 + gridcell.pitchClass cell0, 60 + gridcell.pitchClass cell2, 60 + gridcell.pitchClass cell1],
      chordName = gridcell.noteName cell0,
      row = r,
      col = c\<rparr>"

definition minorTriangle ::
  "nat \<Rightarrow> nat \<Rightarrow> point \<Rightarrow> point \<Rightarrow> point \<Rightarrow> gridcell \<Rightarrow> gridcell \<Rightarrow> gridcell \<Rightarrow> vertex triangle" where
  "minorTriangle r c v1 v2 v3 cell1 cell2 cell3 =
     \<lparr>type = ''minor'',
      vertices = [mkVertex v2 cell2, mkVertex v1 cell1, mkVertex v3 cell3],
      center = \<lparr>x = (x v2 + x v1 + x v3) / 3, z = (z v2 + z v1 + z v3) / 3\<rparr>,
      chord = [60 + gridcell.pitchClass cell2, 60 + gridcell.pitchClass cell1, 60 + gridcell.pitchClass cell3],
      chordName = gridcell.noteName cell2 @ ''m'',
      row = r,
      col = c\<rparr>"

text \<open>The body of the inner loop of \<^verbatim>\<open>generateTriangles\<close>: it pushes the major and
  then the minor triangle of the cell.\<close>

definition cellTriangles ::
  "TonnetzSystem \<Rightarrow> real \<Rightarrow> real \<Rightarrow> nat \<Rightarrow> nat \<Rightarrow> vertex triangle list
     \<Rightarrow> error + vertex triangle list" where
  "cellTriangles this triWidth triHeight r c acc =
     (let v0 = getVertexPosition triWidth triHeight r c;
          v1 = getVertexPosition triWidth triHeight r (c + 1);
          v2 = getVertexPosition triWidth triHeight (r + 1) c;
          v3 = getVertexPosition triWidth triHeight (r + 1) (c + 1)
      in bind (gridAt (grid this) r c) (\<lambda>cell0.
         bind (gridAt (grid this) r (c + 1)) (\<lambda>cell1.
         bind (gridAt (grid this) (r + 1) c) (\<lambda>cell2.
         bind (gridAt (grid this) (r + 1) (c + 1)) (\<lambda>cell3.
           Inr (acc @ [majorTriangle r c v0 v1 v2 cell0 cell1 cell2,
                       minorTriangle r c v1 v2 v3 cell1 cell2 cell3]))))))"

definition generateTriangles :: "TonnetzSystem \<Rightarrow> error + vertex triangle list" where
  "generateTriangles this =
     (let triWidth = triangleSize this;
          triHeight = triangleSize this * sqrt 3 / 2
      in for_loop [0 ..< gridHeight this]
           (\<lambda>r. for_loop [0 ..< gridWidth this] (cellTriangles this triWidth triHeight r))
           [])"

text \<open>The constructor: the constants, then the grid, then the triangles built from it.
  \<open>withGrid\<close> is the system once \<^verbatim>\<open>this.grid\<close> holds the array of the two loops, which
  is what \<^verbatim>\<open>generateGrid\<close> returns when it returns.\<close>

definition TonnetzSystem_fields :: TonnetzSystem where
  "TonnetzSystem_fields =
     \<lparr>noteNames = [''C'', ''Db'', ''D'', ''Eb'', ''E'', ''F'', ''F#'', ''G'', ''Ab'', ''A'', ''Bb'', ''B''],
      gridWidth = 12,
      gridHeight = 8,
      triangleSize = 3,
      fifthInterval = 7,
      majorThirdInterval = 4,
      minorThirdInterval = 3,
      grid = [],
      triangles = [],
      pitchClassToName = [''C'', ''Db'', ''D'', ''Eb'', ''E'', ''F'', ''F#'', ''G'', ''Ab'', ''A'', ''Bb'', ''B'']\<rparr>"

definition withGrid :: "TonnetzSystem \<Rightarrow> TonnetzSystem" where
  "withGrid this = this\<lparr>grid := gridRows this\<rparr>"

definition withTriangles :: "TonnetzSystem \<Rightarrow> error + TonnetzSystem" where
  "withTriangles this = bind (generateTriangles this) (\<lambda>ts. Inr (this\<lparr>triangles := ts\<rparr>))"

definition TonnetzSystem_new :: "error + TonnetzSystem" where
  "TonnetzSystem_new =
     bind (generateGrid TonnetzSystem_fields)
       (\<lambda>g. withTriangles (TonnetzSystem_fields\<lparr>grid := g\<rparr>))"

subsection \<open>Triads by cell\<close>

text \<open>
  \<^verbatim>\<open>getMajorTriad\<close> and \<^verbatim>\<open>getMinorTriad\<close> add numbers to what they read from the
  grid with the operator \<^verbatim>\<open>+\<close>. The operator adds two numbers; when an operand is a
  string or an object it concatenates the texts of both, an object giving
  \<^verbatim>\<open>[object Object]\<close>; \<^verbatim>\<open>undefined\<close> counts as \<^verbatim>\<open>NaN\<close>.
\<close>

datatype jsval = JNum int | JNaN | JStr string | JObject | JUndefined

definition digit :: "nat \<Rightarrow> char" where
  "digit n = ''0123456789'' ! n"

function nat_to_string :: "nat \<Rightarrow> string" where
  "nat_to_string n = (if n < 10 then [digit n] else nat_to_string (n div 10) @ [digit (n mod 10)])"
  by pat_completeness auto
termination
  by (relation "measure id") auto

declare nat_to_string.simps [simp del]

definition int_to_string :: "int \<Rightarrow> string" where
  "int_to_string i = (if i < 0 then ''-'' @ nat_to_string (nat (- i)) else nat_to_string (nat i))"

fun js_ToString :: "jsval \<Rightarrow> string" where
  "js_ToString (JNum n) = int_to_string n"
| "js_ToString JNaN = ''NaN''"
| "js_ToString (JStr s) = s"
| "js_ToString JObject = ''[object Object]''"
| "js_ToString JUndefined = ''undefined''"

fun js_isText :: "jsval \<Rightarrow> bool" where
  "js_isText (JStr s) = True"
| "js_isText JObject = True"
| "js_isText v = False"

fun js_add :: "jsval \<Rightarrow> jsval \<Rightarrow> jsval" where
  "js_add a b =
     (if js_isText a \<or> js_isText b then JStr (js_ToString a @ js_ToString b)
      else (case (a, b) of (JNum m, JNum n) \<Rightarrow> JNum (m + n) | _ \<Rightarrow> JNaN))"

text \<open>\<^verbatim>\<open>this.grid[row][col]\<close> as a value: a missing row throws, a missing column
  gives \<^verbatim>\<open>undefined\<close>.\<close>

definition gridRead :: "('c \<Rightarrow> jsval) \<Rightarrow> 'c list list \<Rightarrow> nat \<Rightarrow> nat \<Rightarrow> error + jsval" where
  "gridRead val g r c =
     (case js_index g r of
        None \<Rightarrow> Inl TypeError
      | Some line \<Rightarrow> (case js_index line c of None \<Rightarrow> Inr JUndefined | Some cell \<Rightarrow> Inr (val cell)))"

definition getMajorTriad :: "TonnetzSystem \<Rightarrow> nat \<Rightarrow> nat \<Rightarrow> error + jsval list" where
  "getMajorTriad this r c =
     bind (gridRead (\<lambda>cell. JObject) (grid this) r c) (\<lambda>root.
       Inr [js_add (JNum 60) root,
            js_add (js_add (JNum 60) root) (JNum 4),
            js_add (js_add (JNum 60) root) (JNum 7)])"

definition getMinorTriad :: "TonnetzSystem \<Rightarrow> nat \<Rightarrow> nat \<Rightarrow> error + jsval list" where
  "getMinorTriad this r c =
     bind (gridRead (\<lambda>cell. JObject) (grid this) r c) (\<lambda>root.
       Inr [js_add (JNum 60) root,
            js_add (js_add (JNum 60) root) (JNum 3),
            js_add (js_add (JNum 60) root) (JNum 7)])"

subsection \<open>Point location\<close>

text \<open>The coordinates are JavaScript numbers, and \<^verbatim>\<open>sign\<close> computes with them in
  floating point: each difference and each product is rounded, and can overflow. The
  arithmetic is a parameter of the model: the difference of two coordinates, the product
  and the difference of two computed values, and the tests \<^verbatim>\<open>d < 0\<close> and \<^verbatim>\<open>d > 0\<close> on
  a computed value (both false of a zero and of \<^verbatim>\<open>NaN\<close>). \<open>exact\<close> is the arithmetic of
  the real numbers, without rounding.\<close>

record 'd arith =
  csub :: "real \<Rightarrow> real \<Rightarrow> 'd"
  fmul :: "'d \<Rightarrow> 'd \<Rightarrow> 'd"
  fsub :: "'d \<Rightarrow> 'd \<Rightarrow> 'd"
  isNegative :: "'d \<Rightarrow> bool"
  isPositive :: "'d \<Rightarrow> bool"

definition exact :: "real arith" where
  "exact = \<lparr>csub = (\<lambda>a b. a - b), fmul = (\<lambda>a b. a * b), fsub = (\<lambda>a b. a - b),
            isNegative = (\<lambda>d. d < 0), isPositive = (\<lambda>d. d > 0)\<rparr>"

text \<open>\<^verbatim>\<open>sign\<close> reads the \<^verbatim>\<open>x\<close> and \<^verbatim>\<open>z\<close> of its three arguments, whatever
  other properties they have. \<open>sign_with ar\<close> is the function under the arithmetic \<open>ar\<close>,
  \<open>sign\<close> the function under the exact one.\<close>

definition sign_with :: "'d arith \<Rightarrow> 'a point_scheme \<Rightarrow> 'b point_scheme \<Rightarrow> 'c point_scheme \<Rightarrow> 'd" where
  "sign_with ar p1 p2 p3 =
     fsub ar (fmul ar (csub ar (x p1) (x p3)) (csub ar (z p2) (z p3)))
             (fmul ar (csub ar (x p2) (x p3)) (csub ar (z p1) (z p3)))"

definition sign :: "'a point_scheme \<Rightarrow> 'b point_scheme \<Rightarrow> 'c point_scheme \<Rightarrow> real" where
  "sign p1 p2 p3 = sign_with exact p1 p2 p3"

text \<open>\<^verbatim>\<open>pointInTriangle\<close>: a triangle with fewer than three vertices makes \<^verbatim>\<open>sign\<close>
  read a property of \<^verbatim>\<open>undefined\<close>. Again \<open>pointInTriangle_with ar\<close> is the function
  under the arithmetic \<open>ar\<close>, and \<open>pointInTriangle\<close> the function under the exact one.\<close>

definition pointInTriangle_with ::
  "'d arith \<Rightarrow> real \<Rightarrow> real \<Rightarrow> ('a point_scheme) triangle \<Rightarrow> error + bool" where
  "pointInTriangle_with ar px pz triangle =
     (let v = vertices triangle
      in case (js_index v 0, js_index v 1, js_index v 2) of
           (Some v0, Some v1, Some v2) \<Rightarrow>
             (let d1 = sign_with ar \<lparr>x = px, z = pz\<rparr> v0 v1;
                  d2 = sign_with ar \<lparr>x = px, z = pz\<rparr> v1 v2;
                  d3 = sign_with ar \<lparr>x = px, z = pz\<rparr> v2 v0;
                  hasNeg = (isNegative ar d1 \<or> isNegative ar d2 \<or> isNegative ar d3);
                  hasPos = (isPositive ar d1 \<or> isPositive ar d2 \<or> isPositive ar d3)
              in Inr (\<not> (hasNeg \<and> hasPos)))
         | _ \<Rightarrow> Inl TypeError)"

definition pointInTriangle :: "real \<Rightarrow> real \<Rightarrow> ('a point_scheme) triangle \<Rightarrow> error + bool" where
  "pointInTriangle px pz triangle = pointInTriangle_with exact px pz triangle"

text \<open>The \<^verbatim>\<open>for ... of\<close> loop of \<^verbatim>\<open>findTriangleAtPosition\<close>, with its early
  return; \<open>None\<close> is \<^verbatim>\<open>null\<close>.\<close>

fun scanTriangles :: "real \<Rightarrow> real \<Rightarrow> ('a point_scheme) triangle list
    \<Rightarrow> error + ('a point_scheme) triangle option" where
  "scanTriangles px pz [] = Inr None"
| "scanTriangles px pz (triangle # rest) =
     bind (pointInTriangle px pz triangle)
       (\<lambda>inside. if inside then Inr (Some triangle) else scanTriangles px pz rest)"

definition findTriangleAtPosition ::
  "('c, 'a point_scheme, 'm) TonnetzBase_scheme \<Rightarrow> real \<Rightarrow> real \<Rightarrow> error + ('a point_scheme) triangle option" where
  "findTriangleAtPosition this px pz = scanTriangles px pz (triangles this)"

section \<open>TonnetzGame of src/game.js\<close>

text \<open>
  The part of the game that reads or writes the engine: the audio system's state, the
  player's position and velocity in the \<^verbatim>\<open>x\<close>/\<^verbatim>\<open>z\<close> plane, the pressed keys, the
  current triangle and the two texts of the chord display. The scene, the camera and the
  meshes are not modelled.
\<close>

record AudioSystem =
  initialized :: bool
  activeOscillators :: "int list"

definition audio_init :: "AudioSystem \<Rightarrow> AudioSystem" where
  "audio_init audio = (if initialized audio then audio else audio\<lparr>initialized := True\<rparr>)"

definition playChord :: "AudioSystem \<Rightarrow> int list \<Rightarrow> AudioSystem" where
  "playChord audio midiNotes =
     (if \<not> initialized audio then audio else audio\<lparr>activeOscillators := midiNotes\<rparr>)"

record TonnetzGame =
  audioSystem :: AudioSystem
  tonnetz :: TonnetzSystem
  player :: point
  playerSpeed :: real
  velocity :: point
  friction :: real
  keys :: "string \<rightharpoonup> bool"
  currentTriangle :: "vertex triangle option"
  chordDisplay :: string
  notesDisplay :: string

definition shiftVertex :: "real \<Rightarrow> real \<Rightarrow> vertex \<Rightarrow> vertex" where
  "shiftVertex offsetX offsetZ v =
     \<lparr>x = x v + offsetX, z = z v + offsetZ, pitchClass = pvertex.pitchClass v, noteName = vertex.noteName v\<rparr>"

definition shiftTriangle :: "real \<Rightarrow> real \<Rightarrow> vertex triangle \<Rightarrow> vertex triangle" where
  "shiftTriangle offsetX offsetZ triangle =
     triangle\<lparr>center := \<lparr>x = x (center triangle) + offsetX, z = z (center triangle) + offsetZ\<rparr>,
              vertices := map (shiftVertex offsetX offsetZ) (vertices triangle)\<rparr>"

text \<open>\<^verbatim>\<open>createTonnetzGrid\<close> updates the triangles of \<^verbatim>\<open>this.tonnetz\<close> in place.\<close>

definition createTonnetzGrid :: "TonnetzGame \<Rightarrow> TonnetzGame" where
  "createTonnetzGrid this =
     (let triHeight = triangleSize (tonnetz this) * sqrt 3 / 2;
          offsetX = - (real (gridWidth (tonnetz this)) * triangleSize (tonnetz this)) / 2;
          offsetZ = - (real (gridHeight (tonnetz this)) * triHeight) / 2
      in this\<lparr>tonnetz := (tonnetz this)\<lparr>triangles :=
                 map (shiftTriangle offsetX offsetZ) (triangles (tonnetz this))\<rparr>\<rparr>)"

definition createPlayer :: "TonnetzGame \<Rightarrow> TonnetzGame" where
  "createPlayer this = this\<lparr>player := \<lparr>x = 0, z = 0\<rparr>\<rparr>"

definition init :: "TonnetzGame \<Rightarrow> TonnetzGame" where
  "init this = createPlayer (createTonnetzGrid this)"

fun join :: "string \<Rightarrow> string list \<Rightarrow> string" where
  "join sep [] = []"
| "join sep [s] = s"
| "join sep (s # t # rest) = s @ sep @ join sep (t # rest)"

text \<open>\<^verbatim>\<open>checkPlayerPosition\<close>: \<^verbatim>\<open>!==\<close> compares the triangle found with the current
  one as objects; the model compares their values.\<close>

definition checkPlayerPosition :: "TonnetzGame \<Rightarrow> error + TonnetzGame" where
  "checkPlayerPosition this =
     bind (findTriangleAtPosition (tonnetz this) (x (player this)) (z (player this)))
       (\<lambda>found. case found of
            None \<Rightarrow> Inr this
          | Some triangle \<Rightarrow>
              if Some triangle \<noteq> currentTriangle this
              then Inr (this\<lparr>currentTriangle := Some triangle,
                             audioSystem := playChord (audioSystem this) (chord triangle),
                             chordDisplay := chordName triangle,
                             notesDisplay := join '' - '' (map vertex.noteName (vertices triangle))\<rparr>)
              else Inr this)"

definition pressed :: "TonnetzGame \<Rightarrow> string \<Rightarrow> bool" where
  "pressed this k = (keys this k = Some True)"

definition updatePlayer :: "TonnetzGame \<Rightarrow> error + TonnetzGame" where
  "updatePlayer this =
     (let vz1 = (if pressed this ''w'' then z (velocity this) - playerSpeed this else z (velocity this));
          vz2 = (if pressed this ''s'' then vz1 + playerSpeed this else vz1);
          vx1 = (if pressed this ''a'' then x (velocity this) - playerSpeed this else x (velocity this));
          vx2 = (if pressed this ''d'' then vx1 + playerSpeed this else vx1);
          vx = vx2 * friction this;
          vz = vz2 * friction this
      in checkPlayerPosition
           (this\<lparr>velocity := \<lparr>x = vx, z = vz\<rparr>,
                 player := \<lparr>x = x (player this) + vx, z = z (player this) + vz\<rparr>\<rparr>))"

text \<open>One call of \<^verbatim>\<open>animate\<close>: the player's update (the camera and the rendering are
  not modelled).\<close>

definition animate :: "TonnetzGame \<Rightarrow> error + TonnetzGame" where
  "animate this = updatePlayer this"

text \<open>The constructor of \<^verbatim>\<open>TonnetzGame\<close>: the fields, \<^verbatim>\<open>init\<close>, and the first call
  of \<^verbatim>\<open>animate\<close>.\<close>

definition TonnetzGame_fields :: "TonnetzSystem \<Rightarrow> TonnetzGame" where
  "TonnetzGame_fields t =
     \<lparr>audioSystem = \<lparr>initialized = False, activeOscillators = []\<rparr>,
      tonnetz = t,
      player = \<lparr>x = 0, z = 0\<rparr>,
      playerSpeed = 167 / 100000,
      velocity = \<lparr>x = 0, z = 0\<rparr>,
      friction = 95 / 100,
      keys = [''w'' \<mapsto> False, ''a'' \<mapsto> False, ''s'' \<mapsto> False, ''d'' \<mapsto> False],
      currentTriangle = None,
      chordDisplay = [],
      notesDisplay = []\<rparr>"

definition TonnetzGame_new :: "error + TonnetzGame" where
  "TonnetzGame_new = bind TonnetzSystem_new (\<lambda>t. animate (init (TonnetzGame_fields t)))"

text \<open>What happens after the constructor: key events (the key already in lower case),
  window resizes, clicks on the start button, and animation frames.\<close>

datatype event = KeyDown string | KeyUp string | Resize | StartClick | AnimationFrame

fun handle :: "event \<Rightarrow> TonnetzGame \<Rightarrow> error + TonnetzGame" where
  "handle (KeyDown k) this = Inr (if k \<in> dom (keys this) then this\<lparr>keys := (keys this)(k \<mapsto> True)\<rparr> else this)"
| "handle (KeyUp k) this = Inr (if k \<in> dom (keys this) then this\<lparr>keys := (keys this)(k \<mapsto> False)\<rparr> else this)"
| "handle Resize this = Inr this"
| "handle StartClick this = Inr (this\<lparr>audioSystem := audio_init (audioSystem this)\<rparr>)"
| "handle AnimationFrame this = animate this"

fun run :: "event list \<Rightarrow> TonnetzGame \<Rightarrow> error + TonnetzGame" where
  "run [] this = Inr this"
| "run (e # es) this = bind (handle e this) (run es)"

section \<open>TonnetzSystem of src/unnamed/part_000\<close>

text \<open>
  The other version of the class: the grid holds the pitch classes themselves, the
  vertices have no note name, chord names come from the table \<open>noteNames\<close>, and the
  vertex positions are computed in the loop from the parity of the row.
\<close>

type_synonym TonnetzSystem_p0 = "(int, pvertex) TonnetzBase"

definition generateGrid_p0 :: "TonnetzSystem_p0 \<Rightarrow> int list list" where
  "generateGrid_p0 this =
     map (\<lambda>r. map (\<lambda>c. js_rem (int r * majorThirdInterval this + int c * fifthInterval this) 12)
          [0 ..< gridWidth this + 1])
       [0 ..< gridHeight this + 1]"

text \<open>\<^verbatim>\<open>this.grid[row][col]\<close> read as a number: a missing row throws, a missing
  column gives \<^verbatim>\<open>undefined\<close>.\<close>

definition gridAt_p0 :: "int list list \<Rightarrow> nat \<Rightarrow> nat \<Rightarrow> error + int" where
  "gridAt_p0 g r c =
     (case js_index g r of
        None \<Rightarrow> Inl TypeError
      | Some line \<Rightarrow> (case js_index line c of None \<Rightarrow> Inl UndefinedValue | Some pc \<Rightarrow> Inr pc))"

definition noteNameAt :: "string list \<Rightarrow> int \<Rightarrow> error + string" where
  "noteNameAt names pc =
     (case (if 0 \<le> pc then js_index names (nat pc) else None) of
        None \<Rightarrow> Inl UndefinedValue
      | Some name \<Rightarrow> Inr name)"

definition mkVertex_p0 :: "point \<Rightarrow> int \<Rightarrow> pvertex" where
  "mkVertex_p0 v pc = \<lparr>x = x v, z = z v, pitchClass = pc\<rparr>"

definition cellTriangles_p0 ::
  "TonnetzSystem_p0 \<Rightarrow> real \<Rightarrow> real \<Rightarrow> nat \<Rightarrow> nat \<Rightarrow> pvertex triangle list
     \<Rightarrow> error + pvertex triangle list" where
  "cellTriangles_p0 this triWidth triHeight r c acc =
     (let xOffset = real_of_int (js_rem (int r) 2) * (triWidth / 2);
          v0 = \<lparr>x = real c * triWidth + xOffset, z = real r * triHeight\<rparr>;
          v1 = \<lparr>x = (real c + 1) * triWidth + xOffset, z = real r * triHeight\<rparr>;
          v2 = \<lparr>x = real c * triWidth + triWidth / 2 + xOffset, z = (real r + 1) * triHeight\<rparr>;
          v3 = \<lparr>x = (real c + 1) * triWidth + triWidth / 2 + xOffset, z = (real r + 1) * triHeight\<rparr>
      in bind (gridAt_p0 (grid this) r c) (\<lambda>pc0.
         bind (gridAt_p0 (grid this) r (c + 1)) (\<lambda>pc1.
         bind (gridAt_p0 (grid this) (r + 1) c) (\<lambda>pc2.
         bind (gridAt_p0 (grid this) (r + 1) (c + 1)) (\<lambda>pc3.
         bind (noteNameAt (noteNames this) pc0) (\<lambda>name0.
         bind (noteNameAt (noteNames this) pc2) (\<lambda>name2.
           Inr (acc @
             [\<lparr>type = ''major'',
               vertices = [mkVertex_p0 v0 pc0, mkVertex_p0 v1 pc1, mkVertex_p0 v2 pc2],
               center = \<lparr>x = (x v0 + x v1 + x v2) / 3, z = (z v0 + z v1 + z v2) / 3\<rparr>,
               chord = [60 + pc0, 60 + pc2, 60 + pc1],
               chordName = name0,
               row = r,
               col = c\<rparr>,
              \<lparr>type = ''minor'',
               vertices = [mkVertex_p0 v2 pc2, mkVertex_p0 v1 pc1, mkVertex_p0 v3 pc3],
               center = \<lparr>x = (x v2 + x v1 + x v3) / 3, z = (z v2 + z v1 + z v3) / 3\<rparr>,
               chord = [60 + pc2, 60 + pc1, 60 + pc3],
               chordName = name2 @ ''m'',
               row = r,
               col = c\<rparr>]))))))))"

definition generateTriangles_p0 :: "TonnetzSystem_p0 \<Rightarrow> error + pvertex triangle list" where
  "generateTriangles_p0 this =
     (let triWidth = triangleSize this;
          triHeight = triangleSize this * sqrt 3 / 2
      in for_loop [0 ..< gridHeight this]
           (\<lambda>r. for_loop [0 ..< gridWidth this] (cellTriangles_p0 this triWidth triHeight r))
           [])"

definition TonnetzSystem_p0_fields :: TonnetzSystem_p0 where
  "TonnetzSystem_p0_fields =
     \<lparr>noteNames = [''C'', ''C#'', ''D'', ''D#'', ''E'', ''F'', ''F#'', ''G'', ''G#'', ''A'', ''A#'', ''B''],
      gridWidth = 12,
      gridHeight = 8,
      triangleSize = 3,
      fifthInterval = 7,
      majorThirdInterval = 4,
      minorThirdInterval = 3,
      grid = [],
      triangles = []\<rparr>"

definition withGrid_p0 :: "TonnetzSystem_p0 \<Rightarrow> TonnetzSystem_p0" where
  "withGrid_p0 this = this\<lparr>grid := generateGrid_p0 this\<rparr>"

definition withTriangles_p0 :: "TonnetzSystem_p0 \<Rightarrow> error + TonnetzSystem_p0" where
  "withTriangles_p0 this = bind (generateTriangles_p0 this) (\<lambda>ts. Inr (this\<lparr>triangles := ts\<rparr>))"

definition TonnetzSystem_p0_new :: "error + TonnetzSystem_p0" where
  "TonnetzSystem_p0_new = withTriangles_p0 (withGrid_p0 TonnetzSystem_p0_fields)"

definition getMajorTriad_p0 :: "TonnetzSystem_p0 \<Rightarrow> nat \<Rightarrow> nat \<Rightarrow> error + jsval list" where
  "getMajorTriad_p0 this r c =
     bind (gridRead JNum (grid this) r c) (\<lambda>root.
       Inr [js_add (JNum 60) root,
            js_add (js_add (JNum 60) root) (JNum 4),
            js_add (js_add (JNum 60) root) (JNum 7)])"

definition getMinorTriad_p0 :: "TonnetzSystem_p0 \<Rightarrow> nat \<Rightarrow> nat \<Rightarrow> error + jsval list" where
  "getMinorTriad_p0 this r c =
     bind (gridRead JNum (grid this) r c) (\<lambda>root.
       Inr [js_add (JNum 60) root,
            js_add (js_add (JNum 60) root) (JNum 3),
            js_add (js_add (JNum 60) root) (JNum 7)])"

text \<open>What \<^verbatim>\<open>createTonnetzGrid\<close> of this version does to \<^verbatim>\<open>this.tonnetz\<close>: it moves
  the center and the vertices of every triangle by the centering offset.\<close>

definition shiftVertex_p0 :: "real \<Rightarrow> real \<Rightarrow> pvertex \<Rightarrow> pvertex" where
  "shiftVertex_p0 offsetX offsetZ v =
     \<lparr>x = x v + offsetX, z = z v + offsetZ, pitchClass = pvertex.pitchClass v\<rparr>"

definition shiftTriangle_p0 :: "real \<Rightarrow> real \<Rightarrow> pvertex triangle \<Rightarrow> pvertex triangle" where
  "shiftTriangle_p0 offsetX offsetZ triangle =
     triangle\<lparr>center := \<lparr>x = x (center triangle) + offsetX, z = z (center triangle) + offsetZ\<rparr>,
              vertices := map (shiftVertex_p0 offsetX offsetZ) (vertices triangle)\<rparr>"

definition createTonnetzGrid_p0 :: "TonnetzSystem_p0 \<Rightarrow> TonnetzSystem_p0" where
  "createTonnetzGrid_p0 this =
     (let triHeight = triangleSize this * sqrt 3 / 2;
          offsetX = - (real (gridWidth this) * triangleSize this) / 2;
          offsetZ = - (real (gridHeight this) * triHeight) / 2
      in this\<lparr>triangles := map (shiftTriangle_p0 offsetX offsetZ) (triangles this)\<rparr>)"

section \<open>Closed forms used in the proofs\<close>

text \<open>The two triangles that the loop body of \<^verbatim>\<open>generateTriangles\<close> pushes for a cell
  whose four grid reads succeed, and the list that the two loops build from them.\<close>

definition cellPair :: "TonnetzSystem \<Rightarrow> nat \<Rightarrow> nat \<Rightarrow> vertex triangle list" where
  "cellPair this r c =
     (let pos = getVertexPosition (triangleSize this) (triangleSize this * sqrt 3 / 2);
          g = grid this
      in [majorTriangle r c (pos r c) (pos r (c + 1)) (pos (r + 1) c)
            (g ! r ! c) (g ! r ! (c + 1)) (g ! (r + 1) ! c),
          minorTriangle r c (pos r (c + 1)) (pos (r + 1) c) (pos (r + 1) (c + 1))
            (g ! r ! (c + 1)) (g ! (r + 1) ! c) (g ! (r + 1) ! (c + 1))])"

definition tessellation :: "TonnetzSystem \<Rightarrow> vertex triangle list" where
  "tessellation this =
     concat (map (\<lambda>r. concat (map (cellPair this r) [0 ..< gridWidth this])) [0 ..< gridHeight this])"

text \<open>The test at the end of \<^verbatim>\<open>pointInTriangle\<close>: among the three signed areas there
  is a negative one and a positive one.\<close>

definition mixed :: "real \<Rightarrow> real \<Rightarrow> real \<Rightarrow> bool" where
  "mixed d1 d2 d3 = ((d1 < 0 \<or> d2 < 0 \<or> d3 < 0) \<and> (d1 > 0 \<or> d2 > 0 \<or> d3 > 0))"

text \<open>The positions of a triangle's vertices as pairs, and \<^verbatim>\<open>sign\<close> on pairs.\<close>

definition coords :: "('a point_scheme) triangle \<Rightarrow> (real \<times> real) list" where
  "coords t = map (\<lambda>v. (x v, z v)) (vertices t)"

definition area2 :: "real \<times> real \<Rightarrow> real \<times> real \<Rightarrow> real \<times> real \<Rightarrow> real" where
  "area2 p a b = (fst p - fst b) * (snd a - snd b) - (fst a - fst b) * (snd p - snd b)"

text \<open>The same closed forms for \<^verbatim>\<open>generateTriangles\<close> of \<^verbatim>\<open>src/unnamed/part_000\<close>.\<close>

definition cellPair_p0 :: "TonnetzSystem_p0 \<Rightarrow> nat \<Rightarrow> nat \<Rightarrow> pvertex triangle list" where
  "cellPair_p0 this r c =
     (let triWidth = triangleSize this;
          triHeight = triangleSize this * sqrt 3 / 2;
          xOffset = real_of_int (js_rem (int r) 2) * (triWidth / 2);
          v0 = \<lparr>x = real c * triWidth + xOffset, z = real r * triHeight\<rparr>;
          v1 = \<lparr>x = (real c + 1) * triWidth + xOffset, z = real r * triHeight\<rparr>;
          v2 = \<lparr>x = real c * triWidth + triWidth / 2 + xOffset, z = (real r + 1) * triHeight\<rparr>;
          v3 = \<lparr>x = (real c + 1) * triWidth + triWidth / 2 + xOffset, z = (real r + 1) * triHeight\<rparr>;
          pc0 = grid this ! r ! c;
          pc1 = grid this ! r ! (c + 1);
          pc2 = grid this ! (r + 1) ! c;
          pc3 = grid this ! (r + 1) ! (c + 1)
      in [\<lparr>type = ''major'',
           vertices = [mkVertex_p0 v0 pc0, mkVertex_p0 v1 pc1, mkVertex_p0 v2 pc2],
           center = \<lparr>x = (x v0 + x v1 + x v2) / 3, z = (z v0 + z v1 + z v2) / 3\<rparr>,
           chord = [60 + pc0, 60 + pc2, 60 + pc1],
           chordName = noteNames this ! nat pc0,
           row = r,
           col = c\<rparr>,
          \<lparr>type = ''minor'',
           vertices = [mkVertex_p0 v2 pc2, mkVertex_p0 v1 pc1, mkVertex_p0 v3 pc3],
           center = \<lparr>x = (x v2 + x v1 + x v3) / 3, z = (z v2 + z v1 + z v3) / 3\<rparr>,
           chord = [60 + pc2, 60 + pc1, 60 + pc3],
           chordName = noteNames this ! nat pc2 @ ''m'',
           row = r,
           col = c\<rparr>])"

definition tessellation_p0 :: "TonnetzSystem_p0 \<Rightarrow> pvertex triangle list" where
  "tessellation_p0 this =
     concat (map (\<lambda>r. concat (map (cellPair_p0 this r) [0 ..< gridWidth this])) [0 ..< gridHeight this])"

section \<open>Loops and lists\<close>

lemma for_loop_cong:
  "(\<And>i s. i \<in> set is \<Longrightarrow> body i s = body' i s) \<Longrightarrow> for_loop is body s = for_loop is body' s"
proof (induction "is" arbitrary: s)
  case Nil
  then show ?case by simp
next
  case (Cons i "is")
  have "body i s = body' i s" using Cons.prems by simp
  moreover have "for_loop is body = for_loop is body'"
    using Cons by (intro ext) simp
  ultimately show ?case by simp
qed

lemma for_loop_push:
  "for_loop is (\<lambda>i s. Inr (s @ f i)) acc = Inr (acc @ concat (map f is))"
  by (induction "is" arbitrary: acc) (simp_all add: bind_def)

lemma for_loop_nested_push:
  "for_loop is (\<lambda>i. for_loop js (\<lambda>j s. Inr (s @ f i j))) acc
     = Inr (acc @ concat (map (\<lambda>i. concat (map (f i) js)) is))"
  by (induction "is" arbitrary: acc) (simp_all add: bind_def for_loop_push)

lemma concat_blocks_length:
  "(\<And>i. i < n \<Longrightarrow> length (f i) = k) \<Longrightarrow> length (concat (map f [0..<n])) = n * k"
  by (induction n) simp_all

lemma concat_blocks_nth:
  "(\<And>i. i < n \<Longrightarrow> length (f i) = k) \<Longrightarrow> i < n \<Longrightarrow> j < k
     \<Longrightarrow> concat (map f [0..<n]) ! (i * k + j) = f i ! j"
proof (induction n)
  case 0
  then show ?case by simp
next
  case (Suc n)
  have len: "length (concat (map f [0..<n])) = n * k"
    using Suc.prems(1) by (simp add: concat_blocks_length)
  show ?case
  proof (cases "i < n")
    case True
    have "i * k + j < n * k"
    proof -
      have "i * k + j < i * k + k" using Suc.prems(3) by simp
      also have "\<dots> = (i + 1) * k" by simp
      also have "\<dots> \<le> n * k" using True by (intro mult_le_mono1) simp
      finally show ?thesis .
    qed
    then show ?thesis using Suc True len by (simp add: nth_append)
  next
    case False
    then have "i = n" using Suc.prems(2) by simp
    then show ?thesis using len by (simp add: nth_append)
  qed
qed

lemma gridRows_length: "length (gridRows this) = gridHeight this + 1"
  by (simp add: gridRows_def)

lemma gridRows_row_length:
  "r \<le> gridHeight this \<Longrightarrow> length (gridRows this ! r) = gridWidth this + 1"
  by (simp add: gridRows_def nth_append less_Suc_eq_le)

lemma js_rem_nonneg: "0 \<le> a \<Longrightarrow> 0 < b \<Longrightarrow> js_rem a b = a mod b"
  by (cases "a = 0") (simp_all add: js_rem_def)

lemma pitch_formula:
  "js_rem (js_rem (int r * 4 + int c * 7) 12 + 12) 12 = (int r * 4 + int c * 7) mod 12"
proof -
  have "js_rem (int r * 4 + int c * 7) 12 = (int r * 4 + int c * 7) mod 12"
    by (rule js_rem_nonneg) simp_all
  moreover have "js_rem ((int r * 4 + int c * 7) mod 12 + 12) 12 = ((int r * 4 + int c * 7) mod 12 + 12) mod 12"
    by (rule js_rem_nonneg) simp_all
  ultimately show ?thesis by simp
qed

lemma gridRows_nth:
  "r \<le> gridHeight this \<Longrightarrow> c \<le> gridWidth this \<Longrightarrow>
   gridRows this ! r ! c =
     \<lparr>gridcell.pitchClass = js_rem (js_rem (int r * majorThirdInterval this + int c * fifthInterval this) 12 + 12) 12,
      gridcell.noteName = getNoteName this (js_rem (js_rem (int r * majorThirdInterval this + int c * fifthInterval this) 12 + 12) 12)\<rparr>"
proof -
  assume r: "r \<le> gridHeight this" and c: "c \<le> gridWidth this"
  have r': "r < length [0..<gridHeight this + 1]" using r by simp
  have c': "c < length [0..<gridWidth this + 1]" using c by simp
  have "[0..<gridHeight this + 1] ! r = r" using r by (metis add_0 less_Suc_eq_le nth_upt Suc_eq_plus1)
  moreover have "[0..<gridWidth this + 1] ! c = c" using c by (metis add_0 less_Suc_eq_le nth_upt Suc_eq_plus1)
  ultimately show ?thesis
    unfolding gridRows_def using r' c' by (simp only: nth_map Let_def)
qed

lemma gridAt_gridRows:
  "r \<le> gridHeight this \<Longrightarrow> c \<le> gridWidth this \<Longrightarrow>
   gridAt (gridRows this) r c = Inr (gridRows this ! r ! c)"
  by (simp add: gridAt_def js_index_def gridRows_length gridRows_row_length)

text \<open>The logging reads of \<^verbatim>\<open>generateGrid\<close> succeed exactly when the grid has a second
  row; with \<open>gridHeight = 0\<close> the read \<^verbatim>\<open>grid[1][0]\<close> throws and no grid is returned.\<close>

lemma readCell_row:
  "r < length g \<Longrightarrow> readCell g r c = Inr (js_index (g ! r) c)"
  "length g \<le> r \<Longrightarrow> readCell g r c = Inl TypeError"
  by (simp_all add: readCell_def js_index_def)

lemma generateGrid_returns:
  assumes "0 < gridHeight this"
  shows "generateGrid this = Inr (gridRows this)"
proof -
  have "0 < length (gridRows this)" "1 < length (gridRows this)"
    using assms by (simp_all add: gridRows_length)
  then show ?thesis
    unfolding generateGrid_def Let_def by (simp only: readCell_row(1) bind_def sum.case)
qed

lemma generateGrid_throws:
  assumes "gridHeight this = 0"
  shows "generateGrid this = Inl TypeError"
proof -
  have "0 < length (gridRows this)" "length (gridRows this) \<le> 1"
    using assms by (simp_all add: gridRows_length)
  then show ?thesis
    unfolding generateGrid_def Let_def by (simp only: readCell_row bind_def sum.case)
qed

lemma filter_concat_none:
  "(\<And>j. j < n \<Longrightarrow> filter P (f j) = []) \<Longrightarrow> filter P (concat (map f [0..<n])) = []"
  by (induction n) simp_all

lemma filter_concat_single:
  "i < n \<Longrightarrow> (\<And>j. j < n \<Longrightarrow> j \<noteq> i \<Longrightarrow> filter P (f j) = [])
     \<Longrightarrow> filter P (concat (map f [0..<n])) = filter P (f i)"
proof (induction n)
  case 0
  then show ?case by simp
next
  case (Suc n)
  show ?case
  proof (cases "i < n")
    case True
    then have "filter P (concat (map f [0..<n])) = filter P (f i)"
      using Suc by simp
    moreover have "filter P (f n) = []" using Suc.prems(2)[of n] True by simp
    ultimately show ?thesis by simp
  next
    case False
    then have i: "i = n" using Suc.prems(1) by simp
    have "filter P (concat (map f [0..<n])) = []"
      using Suc.prems(2) i by (intro filter_concat_none) simp
    then show ?thesis using i by simp
  qed
qed

section \<open>The triangle list in closed form\<close>

lemma cellTriangles_ok:
  assumes "grid this = gridRows this" "r < gridHeight this" "c < gridWidth this"
  shows "cellTriangles this (triangleSize this) (triangleSize this * sqrt 3 / 2) r c acc
           = Inr (acc @ cellPair this r c)"
  using assms
  by (simp add: cellTriangles_def gridAt_gridRows bind_def cellPair_def Let_def)

lemma generateTriangles_closed:
  assumes "grid this = gridRows this"
  shows "generateTriangles this = Inr (tessellation this)"
proof -
  let ?tw = "triangleSize this" and ?th = "triangleSize this * sqrt 3 / 2"
  have inner: "for_loop [0 ..< gridWidth this] (cellTriangles this ?tw ?th r) s
                 = for_loop [0 ..< gridWidth this] (\<lambda>c s. Inr (s @ cellPair this r c)) s"
    if "r \<in> set [0 ..< gridHeight this]" for r s
    using that assms by (intro for_loop_cong) (simp add: cellTriangles_ok)
  have "generateTriangles this
          = for_loop [0 ..< gridHeight this]
              (\<lambda>r. for_loop [0 ..< gridWidth this] (\<lambda>c s. Inr (s @ cellPair this r c))) []"
    unfolding generateTriangles_def Let_def
    by (rule for_loop_cong) (rule inner)
  then show ?thesis
    by (simp add: for_loop_nested_push tessellation_def)
qed

lemma cellPair_length: "length (cellPair this r c) = 2"
  by (simp add: cellPair_def Let_def)

lemma rowBlock_length:
  "length (concat (map (cellPair this r) [0 ..< gridWidth this])) = gridWidth this * 2"
  by (rule concat_blocks_length) (rule cellPair_length)

lemma tessellation_length: "length (tessellation this) = 2 * gridWidth this * gridHeight this"
proof -
  have "length (tessellation this) = gridHeight this * (gridWidth this * 2)"
    unfolding tessellation_def by (rule concat_blocks_length) (rule rowBlock_length)
  then show ?thesis by simp
qed

lemma tessellation_nth:
  assumes "r < gridHeight this" "c < gridWidth this" "j < 2"
  shows "tessellation this ! (2 * (r * gridWidth this + c) + j) = cellPair this r c ! j"
proof -
  have idx: "2 * (r * gridWidth this + c) + j = r * (gridWidth this * 2) + (c * 2 + j)"
    by (simp add: algebra_simps)
  have lt: "c * 2 + j < gridWidth this * 2" using assms by simp
  have "tessellation this ! (r * (gridWidth this * 2) + (c * 2 + j))
          = concat (map (cellPair this r) [0 ..< gridWidth this]) ! (c * 2 + j)"
    unfolding tessellation_def
    by (rule concat_blocks_nth) (use assms lt in \<open>simp_all add: rowBlock_length\<close>)
  also have "\<dots> = cellPair this r c ! j"
    by (rule concat_blocks_nth) (use assms in \<open>simp_all add: cellPair_length\<close>)
  finally show ?thesis unfolding idx .
qed

lemma tessellation_mem:
  "t \<in> set (tessellation this) \<longleftrightarrow>
     (\<exists>r < gridHeight this. \<exists>c < gridWidth this. t \<in> set (cellPair this r c))"
  unfolding tessellation_def by (simp add: Bex_def)

lemma cellPair_row_col: "t \<in> set (cellPair this r c) \<Longrightarrow> row t = r \<and> col t = c"
  by (auto simp: cellPair_def Let_def majorTriangle_def minorTriangle_def)

lemma tessellation_filter:
  assumes "r < gridHeight this" "c < gridWidth this"
  shows "filter (\<lambda>t. row t = r \<and> col t = c) (tessellation this) = cellPair this r c"
proof -
  let ?P = "\<lambda>t. row t = r \<and> col t = c"
  have other_row: "filter ?P (concat (map (cellPair this r') [0 ..< gridWidth this])) = []"
    if "r' \<noteq> r" for r'
    using that by (intro filter_concat_none) (auto simp: filter_empty_conv dest: cellPair_row_col)
  have "filter ?P (tessellation this) = filter ?P (concat (map (cellPair this r) [0 ..< gridWidth this]))"
    unfolding tessellation_def using assms(1) other_row by (intro filter_concat_single) simp_all
  also have "\<dots> = filter ?P (cellPair this r c)"
    using assms(2)
    by (intro filter_concat_single) (auto simp: filter_empty_conv dest: cellPair_row_col)
  also have "\<dots> = cellPair this r c"
    by (auto simp: filter_id_conv dest: cellPair_row_col)
  finally show ?thesis .
qed

section \<open>The grid and the shape of the triangles\<close>

lemma js_rem_bounds: "0 < b \<Longrightarrow> - b < js_rem a b \<and> js_rem a b < b"
proof -
  assume b: "0 < b"
  have m: "0 \<le> \<bar>a\<bar> mod \<bar>b\<bar> \<and> \<bar>a\<bar> mod \<bar>b\<bar> < b" using b by simp
  consider "a < 0" | "a = 0" | "0 < a" by linarith
  then show ?thesis
  proof cases
    case 1
    then have "js_rem a b = - (\<bar>a\<bar> mod \<bar>b\<bar>)" by (simp add: js_rem_def)
    then show ?thesis using m b by linarith
  next
    case 2
    then show ?thesis using b by (simp add: js_rem_def)
  next
    case 3
    then have "js_rem a b = \<bar>a\<bar> mod \<bar>b\<bar>" by (simp add: js_rem_def)
    then show ?thesis using m b by linarith
  qed
qed

lemma normalized_range: "0 \<le> js_rem (js_rem a 12 + 12) 12 \<and> js_rem (js_rem a 12 + 12) 12 < 12"
proof -
  have "- 12 < js_rem a 12" using js_rem_bounds[of 12 a] by simp
  then have "js_rem (js_rem a 12 + 12) 12 = (js_rem a 12 + 12) mod 12"
    by (intro js_rem_nonneg) simp_all
  then show ?thesis by simp
qed

lemma gridRows_pitch_range:
  assumes "r \<le> gridHeight this" "c \<le> gridWidth this"
  shows "0 \<le> gridcell.pitchClass (gridRows this ! r ! c)
         \<and> gridcell.pitchClass (gridRows this ! r ! c) < 12"
  using assms normalized_range by (simp add: gridRows_nth)

lemma gridRows_cell:
  assumes "majorThirdInterval this = 4" "fifthInterval this = 7"
    "r \<le> gridHeight this" "c \<le> gridWidth this"
  shows "gridRows this ! r ! c =
           \<lparr>gridcell.pitchClass = (int r * 4 + int c * 7) mod 12,
            gridcell.noteName = getNoteName this ((int r * 4 + int c * 7) mod 12)\<rparr>"
  using assms by (simp add: gridRows_nth pitch_formula)

lemma cellPair_shape:
  assumes "t \<in> set (cellPair this r c)"
  shows "length (vertices t) = 3 \<and> length (chord t) = 3"
  using assms by (auto simp: cellPair_def Let_def majorTriangle_def minorTriangle_def)

lemma cellPair_chord_range:
  assumes "grid this = gridRows this" "r < gridHeight this" "c < gridWidth this"
    "t \<in> set (cellPair this r c)" "n \<in> set (chord t)"
  shows "60 \<le> n \<and> n \<le> 71"
proof -
  have "0 \<le> gridcell.pitchClass (grid this ! i ! j) \<and> gridcell.pitchClass (grid this ! i ! j) < 12"
    if "i \<le> gridHeight this" "j \<le> gridWidth this" for i j
    using that assms(1) gridRows_pitch_range[of i this j] by simp
  from this[of r c] this[of r "c + 1"] this[of "r + 1" c] this[of "r + 1" "c + 1"] assms(2-5)
  show ?thesis
    by (auto simp: cellPair_def Let_def majorTriangle_def minorTriangle_def)
qed

lemma getNoteName_grid_update [simp]: "getNoteName (this\<lparr>grid := g\<rparr>) = getNoteName this"
  by (intro ext) (simp add: getNoteName_def)

lemma gridRows_grid_update [simp]: "gridRows (this\<lparr>grid := g\<rparr>) = gridRows this"
  unfolding gridRows_def by simp

lemma withGrid_consistent: "grid (withGrid this) = gridRows (withGrid this)"
  by (simp add: withGrid_def)

lemma withGrid_fields [simp]:
  "gridWidth (withGrid this) = gridWidth this"
  "gridHeight (withGrid this) = gridHeight this"
  "triangleSize (withGrid this) = triangleSize this"
  "majorThirdInterval (withGrid this) = majorThirdInterval this"
  "fifthInterval (withGrid this) = fifthInterval this"
  "pitchClassToName (withGrid this) = pitchClassToName this"
  by (simp_all add: withGrid_def)

lemma fields_values [simp]:
  "gridWidth TonnetzSystem_fields = 12"
  "gridHeight TonnetzSystem_fields = 8"
  "triangleSize TonnetzSystem_fields = 3"
  "majorThirdInterval TonnetzSystem_fields = 4"
  "fifthInterval TonnetzSystem_fields = 7"
  by (simp_all add: TonnetzSystem_fields_def)

lemma cellPair_explicit:
  assumes "grid this = gridRows this" "majorThirdInterval this = 4" "fifthInterval this = 7"
    "r < gridHeight this" "c < gridWidth this"
  shows "cellPair this r c =
    [\<lparr>type = ''major'',
      vertices =
        [\<lparr>x = real c * triangleSize this + real r * (triangleSize this / 2),
          z = real r * (triangleSize this * sqrt 3 / 2),
          pitchClass = (int r * 4 + int c * 7) mod 12,
          noteName = getNoteName this ((int r * 4 + int c * 7) mod 12)\<rparr>,
         \<lparr>x = real (c + 1) * triangleSize this + real r * (triangleSize this / 2),
          z = real r * (triangleSize this * sqrt 3 / 2),
          pitchClass = (int r * 4 + int (c + 1) * 7) mod 12,
          noteName = getNoteName this ((int r * 4 + int (c + 1) * 7) mod 12)\<rparr>,
         \<lparr>x = real c * triangleSize this + real (r + 1) * (triangleSize this / 2),
          z = real (r + 1) * (triangleSize this * sqrt 3 / 2),
          pitchClass = (int (r + 1) * 4 + int c * 7) mod 12,
          noteName = getNoteName this ((int (r + 1) * 4 + int c * 7) mod 12)\<rparr>],
      center =
        \<lparr>x = ((real c * triangleSize this + real r * (triangleSize this / 2))
               + (real (c + 1) * triangleSize this + real r * (triangleSize this / 2))
               + (real c * triangleSize this + real (r + 1) * (triangleSize this / 2))) / 3,
         z = (real r * (triangleSize this * sqrt 3 / 2)
               + real r * (triangleSize this * sqrt 3 / 2)
               + real (r + 1) * (triangleSize this * sqrt 3 / 2)) / 3\<rparr>,
      chord = [60 + (int r * 4 + int c * 7) mod 12,
               60 + (int (r + 1) * 4 + int c * 7) mod 12,
               60 + (int r * 4 + int (c + 1) * 7) mod 12],
      chordName = getNoteName this ((int r * 4 + int c * 7) mod 12),
      row = r,
      col = c\<rparr>,
     \<lparr>type = ''minor'',
      vertices =
        [\<lparr>x = real c * triangleSize this + real (r + 1) * (triangleSize this / 2),
          z = real (r + 1) * (triangleSize this * sqrt 3 / 2),
          pitchClass = (int (r + 1) * 4 + int c * 7) mod 12,
          noteName = getNoteName this ((int (r + 1) * 4 + int c * 7) mod 12)\<rparr>,
         \<lparr>x = real (c + 1) * triangleSize this + real r * (triangleSize this / 2),
          z = real r * (triangleSize this * sqrt 3 / 2),
          pitchClass = (int r * 4 + int (c + 1) * 7) mod 12,
          noteName = getNoteName this ((int r * 4 + int (c + 1) * 7) mod 12)\<rparr>,
         \<lparr>x = real (c + 1) * triangleSize this + real (r + 1) * (triangleSize this / 2),
          z = real (r + 1) * (triangleSize this * sqrt 3 / 2),
          pitchClass = (int (r + 1) * 4 + int (c + 1) * 7) mod 12,
          noteName = getNoteName this ((int (r + 1) * 4 + int (c + 1) * 7) mod 12)\<rparr>],
      center =
        \<lparr>x = ((real c * triangleSize this + real (r + 1) * (triangleSize this / 2))
               + (real (c + 1) * triangleSize this + real r * (triangleSize this / 2))
               + (real (c + 1) * triangleSize this + real (r + 1) * (triangleSize this / 2))) / 3,
         z = (real (r + 1) * (triangleSize this * sqrt 3 / 2)
               + real r * (triangleSize this * sqrt 3 / 2)
               + real (r + 1) * (triangleSize this * sqrt 3 / 2)) / 3\<rparr>,
      chord = [60 + (int (r + 1) * 4 + int c * 7) mod 12,
               60 + (int r * 4 + int (c + 1) * 7) mod 12,
               60 + (int (r + 1) * 4 + int (c + 1) * 7) mod 12],
      chordName = getNoteName this ((int (r + 1) * 4 + int c * 7) mod 12) @ ''m'',
      row = r,
      col = c\<rparr>]"
proof -
  have cell: "grid this ! i ! j =
           \<lparr>gridcell.pitchClass = (int i * 4 + int j * 7) mod 12,
            gridcell.noteName = getNoteName this ((int i * 4 + int j * 7) mod 12)\<rparr>"
    if "i \<le> gridHeight this" "j \<le> gridWidth this" for i j
    using gridRows_cell[OF assms(2,3) that] assms(1) by simp
  have c00: "grid this ! r ! c = \<lparr>gridcell.pitchClass = (int r * 4 + int c * 7) mod 12,
            gridcell.noteName = getNoteName this ((int r * 4 + int c * 7) mod 12)\<rparr>"
    using cell[of r c] assms by simp
  have c01: "grid this ! r ! (c + 1) = \<lparr>gridcell.pitchClass = (int r * 4 + int (c + 1) * 7) mod 12,
            gridcell.noteName = getNoteName this ((int r * 4 + int (c + 1) * 7) mod 12)\<rparr>"
    using cell[of r "c + 1"] assms by simp
  have c10: "grid this ! (r + 1) ! c = \<lparr>gridcell.pitchClass = (int (r + 1) * 4 + int c * 7) mod 12,
            gridcell.noteName = getNoteName this ((int (r + 1) * 4 + int c * 7) mod 12)\<rparr>"
    using cell[of "r + 1" c] assms by simp
  have c11: "grid this ! (r + 1) ! (c + 1) = \<lparr>gridcell.pitchClass = (int (r + 1) * 4 + int (c + 1) * 7) mod 12,
            gridcell.noteName = getNoteName this ((int (r + 1) * 4 + int (c + 1) * 7) mod 12)\<rparr>"
    using cell[of "r + 1" "c + 1"] assms by simp
  show ?thesis
    unfolding cellPair_def Let_def c00 c01 c10 c11
    by (simp add: majorTriangle_def minorTriangle_def mkVertex_def getVertexPosition_def)
qed

lemma cellPair_types:
  "type (cellPair this r c ! 0) = ''major''" "type (cellPair this r c ! Suc 0) = ''minor''"
  "row (cellPair this r c ! 0) = r" "row (cellPair this r c ! Suc 0) = r"
  "col (cellPair this r c ! 0) = c" "col (cellPair this r c ! Suc 0) = c"
  by (simp_all add: cellPair_def Let_def majorTriangle_def minorTriangle_def)

lemma getNoteName_default:
  "getNoteName (withGrid TonnetzSystem_fields) 0 = ''C''"
  "getNoteName (withGrid TonnetzSystem_fields) 4 = ''E''"
  by (simp_all add: getNoteName_def js_index_def TonnetzSystem_fields_def withGrid_def)

section \<open>Point location\<close>

text \<open>Under the exact arithmetic the two functions are the formulas of the source read
  over the real numbers.\<close>

lemma sign_exact:
  "sign p1 p2 p3 = (x p1 - x p3) * (z p2 - z p3) - (x p2 - x p3) * (z p1 - z p3)"
  by (simp add: sign_def sign_with_def exact_def)

lemma pointInTriangle_exact:
  "pointInTriangle px pz triangle =
     (let v = vertices triangle
      in case (js_index v 0, js_index v 1, js_index v 2) of
           (Some v0, Some v1, Some v2) \<Rightarrow>
             (let d1 = sign \<lparr>x = px, z = pz\<rparr> v0 v1;
                  d2 = sign \<lparr>x = px, z = pz\<rparr> v1 v2;
                  d3 = sign \<lparr>x = px, z = pz\<rparr> v2 v0;
                  hasNeg = (d1 < 0 \<or> d2 < 0 \<or> d3 < 0);
                  hasPos = (d1 > 0 \<or> d2 > 0 \<or> d3 > 0)
              in Inr (\<not> (hasNeg \<and> hasPos)))
         | _ \<Rightarrow> Inl TypeError)"
  unfolding pointInTriangle_def pointInTriangle_with_def sign_def exact_def Let_def
  by (simp split: option.splits)


lemma pointInTriangle_three:
  assumes "vertices t = [v0, v1, v2]"
  shows "pointInTriangle px pz t =
           Inr (\<not> mixed (sign \<lparr>x = px, z = pz\<rparr> v0 v1) (sign \<lparr>x = px, z = pz\<rparr> v1 v2)
                         (sign \<lparr>x = px, z = pz\<rparr> v2 v0))"
  using assms by (auto simp add: pointInTriangle_exact js_index_def Let_def mixed_def)

lemma pointInTriangle_short:
  assumes "length (vertices t) < 3"
  shows "pointInTriangle px pz t = Inl TypeError"
proof -
  have "js_index (vertices t) 2 = None" using assms by (simp add: js_index_def)
  then show ?thesis
    by (simp add: pointInTriangle_exact Let_def split: option.splits)
qed

lemma not_mixed_scaled:
  fixes A :: real
  assumes "0 \<le> p" "0 \<le> q"
  shows "\<not> mixed 0 (p * A) (q * A)" "\<not> mixed (p * A) 0 (q * A)" "\<not> mixed (p * A) (q * A) 0"
proof -
  have "(0 \<le> p * A \<and> 0 \<le> q * A) \<or> (p * A \<le> 0 \<and> q * A \<le> 0)"
  proof (cases "0 \<le> A")
    case True
    then show ?thesis using assms by simp
  next
    case False
    then show ?thesis using assms by (simp add: mult_nonneg_nonpos)
  qed
  then show "\<not> mixed 0 (p * A) (q * A)" "\<not> mixed (p * A) 0 (q * A)" "\<not> mixed (p * A) (q * A) 0"
    unfolding mixed_def by linarith+
qed

text \<open>Under the exact arithmetic every point of an edge is found inside. Rounding can
  break this (the area that is zero over the reals can be computed as a small number of
  the wrong sign), so it is a fact of \<open>pointInTriangle\<close> only, not of
  \<open>pointInTriangle_with\<close>.\<close>

lemma edge_point_inside:
  assumes "vertices t = [v0, v1, v2]" "0 \<le> s" "s \<le> 1"
  shows "pointInTriangle (x v0 + s * (x v1 - x v0)) (z v0 + s * (z v1 - z v0)) t = Inr True"
    and "pointInTriangle (x v1 + s * (x v2 - x v1)) (z v1 + s * (z v2 - z v1)) t = Inr True"
    and "pointInTriangle (x v2 + s * (x v0 - x v2)) (z v2 + s * (z v0 - z v2)) t = Inr True"
proof -
  define A where "A = (x v0 - x v2) * (z v1 - z v2) - (x v1 - x v2) * (z v0 - z v2)"
  have s: "0 \<le> s" "0 \<le> 1 - s" using assms by simp_all
  {
    let ?P = "\<lparr>x = x v0 + s * (x v1 - x v0), z = z v0 + s * (z v1 - z v0)\<rparr>"
    have "sign ?P v0 v1 = 0" "sign ?P v1 v2 = (1 - s) * A" "sign ?P v2 v0 = s * A"
      by (simp_all add: sign_exact A_def algebra_simps)
    then show "pointInTriangle (x v0 + s * (x v1 - x v0)) (z v0 + s * (z v1 - z v0)) t = Inr True"
      using not_mixed_scaled(1)[OF s(2) s(1), of A] by (simp add: pointInTriangle_three[OF assms(1)])
  }
  {
    let ?P = "\<lparr>x = x v1 + s * (x v2 - x v1), z = z v1 + s * (z v2 - z v1)\<rparr>"
    have "sign ?P v1 v2 = 0" "sign ?P v2 v0 = (1 - s) * A" "sign ?P v0 v1 = s * A"
      by (simp_all add: sign_exact A_def algebra_simps)
    then show "pointInTriangle (x v1 + s * (x v2 - x v1)) (z v1 + s * (z v2 - z v1)) t = Inr True"
      using not_mixed_scaled(2)[OF s(1) s(2), of A] by (simp add: pointInTriangle_three[OF assms(1)])
  }
  {
    let ?P = "\<lparr>x = x v2 + s * (x v0 - x v2), z = z v2 + s * (z v0 - z v2)\<rparr>"
    have "sign ?P v2 v0 = 0" "sign ?P v0 v1 = (1 - s) * A" "sign ?P v1 v2 = s * A"
      by (simp_all add: sign_exact A_def algebra_simps)
    then show "pointInTriangle (x v2 + s * (x v0 - x v2)) (z v2 + s * (z v0 - z v2)) t = Inr True"
      using not_mixed_scaled(3)[OF s(2) s(1), of A] by (simp add: pointInTriangle_three[OF assms(1)])
  }
qed

lemma pointInTriangle_coords:
  assumes "coords t = [A, B, C]"
  shows "pointInTriangle px pz t =
           Inr (\<not> mixed (area2 (px, pz) A B) (area2 (px, pz) B C) (area2 (px, pz) C A))"
proof -
  from assms obtain v0 v1 v2 where v: "vertices t = [v0, v1, v2]"
    and "A = (x v0, z v0)" "B = (x v1, z v1)" "C = (x v2, z v2)"
    by (auto simp: coords_def)
  then show ?thesis
    by (simp add: pointInTriangle_three[OF v] sign_exact area2_def)
qed

lemma area2_sum: "area2 p a b + area2 p b c + area2 p c a = area2 a b c"
  by (simp add: area2_def algebra_simps)

lemma area2_bary_fst:
  "fst p * area2 a b c = area2 p b c * fst a + area2 p c a * fst b + area2 p a b * fst c"
  by (simp add: area2_def algebra_simps)

lemma area2_bary_snd:
  "snd p * area2 a b c = area2 p b c * snd a + area2 p c a * snd b + area2 p a b * snd c"
  by (simp add: area2_def algebra_simps)

lemma convex_bound:
  fixes d1 d2 d3 :: real
  assumes "0 \<le> d1" "0 \<le> d2" "0 \<le> d3" "0 < d1 + d2 + d3"
    and "q * (d1 + d2 + d3) = d1 * a + d2 * b + d3 * c"
    and "lo \<le> a" "lo \<le> b" "lo \<le> c" "a \<le> hi" "b \<le> hi" "c \<le> hi"
  shows "lo \<le> q \<and> q \<le> hi"
proof -
  have up: "d1 * a + d2 * b + d3 * c \<le> d1 * hi + d2 * hi + d3 * hi"
    using assms by (intro add_mono mult_left_mono) simp_all
  have dn: "d1 * lo + d2 * lo + d3 * lo \<le> d1 * a + d2 * b + d3 * c"
    using assms by (intro add_mono mult_left_mono) simp_all
  have "q * (d1 + d2 + d3) \<le> hi * (d1 + d2 + d3)"
    using up assms(5) by (simp add: algebra_simps)
  then have "q \<le> hi" using assms(4) by (simp add: mult_le_cancel_right)
  have "lo * (d1 + d2 + d3) \<le> q * (d1 + d2 + d3)"
    using dn assms(5) by (simp add: algebra_simps)
  then have "lo \<le> q" using assms(4) by (simp add: mult_le_cancel_right)
  with \<open>q \<le> hi\<close> show ?thesis by simp
qed

lemma unmixed_cases:
  assumes "\<not> mixed d1 d2 d3" "d1 + d2 + d3 \<noteq> 0"
  shows "(0 \<le> d1 \<and> 0 \<le> d2 \<and> 0 \<le> d3 \<and> 0 < d1 + d2 + d3)
       \<or> (0 \<le> - d1 \<and> 0 \<le> - d2 \<and> 0 \<le> - d3 \<and> 0 < - d1 + - d2 + - d3)"
  using assms unfolding mixed_def by linarith

lemma inside_bounding_box:
  assumes "\<not> mixed (area2 p a b) (area2 p b c) (area2 p c a)" "area2 a b c \<noteq> 0"
    and "lo \<le> fst a" "lo \<le> fst b" "lo \<le> fst c" "fst a \<le> hi" "fst b \<le> hi" "fst c \<le> hi"
    and "lo' \<le> snd a" "lo' \<le> snd b" "lo' \<le> snd c" "snd a \<le> hi'" "snd b \<le> hi'" "snd c \<le> hi'"
  shows "lo \<le> fst p \<and> fst p \<le> hi \<and> lo' \<le> snd p \<and> snd p \<le> hi'"
proof -
  let ?d1 = "area2 p b c" and ?d2 = "area2 p c a" and ?d3 = "area2 p a b"
  have sum: "?d1 + ?d2 + ?d3 = area2 a b c" using area2_sum[of p a b c] by simp
  have nm: "\<not> mixed ?d1 ?d2 ?d3" using assms(1) unfolding mixed_def by blast
  have bx: "fst p * (?d1 + ?d2 + ?d3) = ?d1 * fst a + ?d2 * fst b + ?d3 * fst c"
    unfolding sum by (rule area2_bary_fst)
  have bz: "snd p * (?d1 + ?d2 + ?d3) = ?d1 * snd a + ?d2 * snd b + ?d3 * snd c"
    unfolding sum by (rule area2_bary_snd)
  from unmixed_cases[OF nm] sum assms(2)
  consider (pos) "0 \<le> ?d1" "0 \<le> ?d2" "0 \<le> ?d3" "0 < ?d1 + ?d2 + ?d3"
    | (neg) "0 \<le> - ?d1" "0 \<le> - ?d2" "0 \<le> - ?d3" "0 < - ?d1 + - ?d2 + - ?d3"
    by auto
  then show ?thesis
  proof cases
    case pos
    show ?thesis
      using convex_bound[OF pos bx assms(3-8)] convex_bound[OF pos bz assms(9-14)] by simp
  next
    case neg
    have bx': "fst p * (- ?d1 + - ?d2 + - ?d3) = - ?d1 * fst a + - ?d2 * fst b + - ?d3 * fst c"
      using bx by (simp add: algebra_simps)
    have bz': "snd p * (- ?d1 + - ?d2 + - ?d3) = - ?d1 * snd a + - ?d2 * snd b + - ?d3 * snd c"
      using bz by (simp add: algebra_simps)
    show ?thesis
      using convex_bound[OF neg bx' assms(3-8)] convex_bound[OF neg bz' assms(9-14)] by simp
  qed
qed

lemma scanTriangles_find:
  assumes "\<forall>t \<in> set ts. length (vertices t) = 3"
  shows "scanTriangles px pz ts = Inr (find (\<lambda>t. pointInTriangle px pz t = Inr True) ts)"
  using assms
proof (induction ts)
  case Nil
  then show ?case by simp
next
  case (Cons t ts)
  from Cons.prems have "length (vertices t) = 3" by simp
  then obtain v0 v1 v2 where v: "vertices t = [v0, v1, v2]"
    by (auto simp: length_Suc_conv numeral_3_eq_3)
  show ?case
    using Cons by (simp add: pointInTriangle_three[OF v] bind_def)
qed

lemma find_unique:
  assumes "t \<in> set ts" "P t" "\<forall>t' \<in> set ts. P t' \<longrightarrow> t' = t"
  shows "find P ts = Some t"
proof (cases "find P ts")
  case None
  then show ?thesis using assms(1,2) by (auto simp: find_None_iff)
next
  case (Some t')
  then have "P t'" "t' \<in> set ts" by (auto simp: find_Some_iff)
  then show ?thesis using assms(3) Some by auto
qed

lemma cellPair_cases:
  "t \<in> set (cellPair this r c) \<longleftrightarrow> t = cellPair this r c ! 0 \<or> t = cellPair this r c ! 1"
  by (auto simp: cellPair_def Let_def)

lemma shifted_vertices_length:
  "length (vertices (shiftTriangle ox oz t)) = length (vertices t)"
  by (simp add: shiftTriangle_def)

lemma shifted_key [simp]:
  "row (shiftTriangle ox oz t) = row t" "col (shiftTriangle ox oz t) = col t"
  "type (shiftTriangle ox oz t) = type t" "chord (shiftTriangle ox oz t) = chord t"
  "chordName (shiftTriangle ox oz t) = chordName t"
  by (simp_all add: shiftTriangle_def)

lemma coords_major:
  "coords (shiftTriangle ox oz (cellPair this r c ! 0)) =
     (let s = triangleSize this; h = triangleSize this * sqrt 3 / 2;
          X = real c * s + real r * (s / 2) + ox; Z = real r * h + oz
      in [(X, Z), (X + s, Z), (X + s / 2, Z + h)])"
  by (simp add: coords_def shiftTriangle_def shiftVertex_def cellPair_def Let_def majorTriangle_def
      mkVertex_def getVertexPosition_def field_simps)

lemma coords_minor:
  "coords (shiftTriangle ox oz (cellPair this r c ! Suc 0)) =
     (let s = triangleSize this; h = triangleSize this * sqrt 3 / 2;
          X = real c * s + real r * (s / 2) + ox; Z = real r * h + oz
      in [(X + s / 2, Z + h), (X + s, Z), (X + 3 * s / 2, Z + h)])"
  by (simp add: coords_def shiftTriangle_def shiftVertex_def cellPair_def Let_def minorTriangle_def
      mkVertex_def getVertexPosition_def field_simps)

lemma center_major:
  "center (shiftTriangle ox oz (cellPair this r c ! 0)) =
     (let s = triangleSize this; h = triangleSize this * sqrt 3 / 2;
          X = real c * s + real r * (s / 2) + ox; Z = real r * h + oz
      in \<lparr>x = X + s / 2, z = Z + h / 3\<rparr>)"
  by (simp add: shiftTriangle_def cellPair_def Let_def majorTriangle_def
      getVertexPosition_def field_simps)

lemma center_minor:
  "center (shiftTriangle ox oz (cellPair this r c ! Suc 0)) =
     (let s = triangleSize this; h = triangleSize this * sqrt 3 / 2;
          X = real c * s + real r * (s / 2) + ox; Z = real r * h + oz
      in \<lparr>x = X + s, z = Z + 2 * h / 3\<rparr>)"
  by (simp add: shiftTriangle_def cellPair_def Let_def minorTriangle_def
      getVertexPosition_def field_simps)

lemma mixed_scale:
  assumes "0 < a"
  shows "mixed (a * p) (a * q) (a * w) = mixed p q w"
  using assms by (simp add: mixed_def zero_less_mult_iff mult_less_0_iff not_less)

lemma nat_real_cases: "(i::nat) = j \<or> real i + 1 \<le> real j \<or> real j + 1 \<le> real i"
proof -
  consider "i < j" | "i = j" | "j < i" by linarith
  then show ?thesis
  proof cases
    case 1
    then have "Suc i \<le> j" by simp
    then have "real (Suc i) \<le> real j" by (simp only: of_nat_le_iff)
    then show ?thesis by simp
  next
    case 2
    then show ?thesis by simp
  next
    case 3
    then have "Suc j \<le> i" by simp
    then have "real (Suc j) \<le> real i" by (simp only: of_nat_le_iff)
    then show ?thesis by simp
  qed
qed

lemma centroid_major_in_major:
  assumes "0 < triangleSize this"
  shows "pointInTriangle (x (center (shiftTriangle ox oz (cellPair this r c ! 0))))
            (z (center (shiftTriangle ox oz (cellPair this r c ! 0))))
            (shiftTriangle ox oz (cellPair this r' c' ! 0))
         = Inr (\<not> mixed (1 / 3 - (real r' - real r))
                        (1 / 3 + (real c' - real c) + (real r' - real r))
                        (1 / 3 - (real c' - real c)))"
proof -
  define s where "s = triangleSize this"
  define h where "h = triangleSize this * sqrt 3 / 2"
  define a where "a = s * h"
  have a: "0 < a" using assms by (simp add: a_def s_def h_def)
  let ?px = "real c * s + real r * (s / 2) + ox + s / 2"
  let ?pz = "real r * h + oz + h / 3"
  let ?X = "real c' * s + real r' * (s / 2) + ox"
  let ?Z = "real r' * h + oz"
  have d1: "area2 (?px, ?pz) (?X, ?Z) (?X + s, ?Z) = a * (1 / 3 - (real r' - real r))"
    by (simp add: area2_def a_def field_simps)
  have d2: "area2 (?px, ?pz) (?X + s, ?Z) (?X + s / 2, ?Z + h)
              = a * (1 / 3 + (real c' - real c) + (real r' - real r))"
    by (simp add: area2_def a_def field_simps)
  have d3: "area2 (?px, ?pz) (?X + s / 2, ?Z + h) (?X, ?Z) = a * (1 / 3 - (real c' - real c))"
    by (simp add: area2_def a_def field_simps)
  have co: "coords (shiftTriangle ox oz (cellPair this r' c' ! 0))
              = [(?X, ?Z), (?X + s, ?Z), (?X + s / 2, ?Z + h)]"
    by (simp add: coords_major Let_def s_def h_def)
  have cx: "x (center (shiftTriangle ox oz (cellPair this r c ! 0))) = ?px"
    and cz: "z (center (shiftTriangle ox oz (cellPair this r c ! 0))) = ?pz"
    by (simp_all add: center_major Let_def s_def h_def)
  show ?thesis
    unfolding cx cz by (simp only: pointInTriangle_coords[OF co] d1 d2 d3 mixed_scale[OF a])
qed


lemma centroid_major_in_minor:
  assumes "0 < triangleSize this"
  shows "pointInTriangle (x (center (shiftTriangle ox oz (cellPair this r c ! 0))))
            (z (center (shiftTriangle ox oz (cellPair this r c ! 0))))
            (shiftTriangle ox oz (cellPair this r' c' ! 1))
         = Inr (\<not> mixed (- (1 / 3) - (real c' - real c) - (real r' - real r))
                        (2 / 3 + (real c' - real c))
                        (2 / 3 + (real r' - real r)))"
proof -
  define s where "s = triangleSize this"
  define h where "h = triangleSize this * sqrt 3 / 2"
  define a where "a = s * h"
  have a: "0 < a" using assms by (simp add: a_def s_def h_def)
  let ?px = "real c * s + real r * (s / 2) + ox + s / 2"
  let ?pz = "real r * h + oz + h / 3"
  let ?X = "real c' * s + real r' * (s / 2) + ox"
  let ?Z = "real r' * h + oz"
  have d1: "area2 (?px, ?pz) (?X + s / 2, ?Z + h) (?X + s, ?Z) = a * (- (1 / 3) - (real c' - real c) - (real r' - real r))"
    by (simp add: area2_def a_def field_simps)
  have d2: "area2 (?px, ?pz) (?X + s, ?Z) (?X + 3 * s / 2, ?Z + h)
              = a * (2 / 3 + (real c' - real c))"
    by (simp add: area2_def a_def field_simps)
  have d3: "area2 (?px, ?pz) (?X + 3 * s / 2, ?Z + h) (?X + s / 2, ?Z + h) = a * (2 / 3 + (real r' - real r))"
    by (simp add: area2_def a_def field_simps)
  have co: "coords (shiftTriangle ox oz (cellPair this r' c' ! 1))
              = [(?X + s / 2, ?Z + h), (?X + s, ?Z), (?X + 3 * s / 2, ?Z + h)]"
    by (simp add: coords_minor Let_def s_def h_def)
  have cx: "x (center (shiftTriangle ox oz (cellPair this r c ! 0))) = ?px"
    and cz: "z (center (shiftTriangle ox oz (cellPair this r c ! 0))) = ?pz"
    by (simp_all add: center_major Let_def s_def h_def)
  show ?thesis
    unfolding cx cz by (simp only: pointInTriangle_coords[OF co] d1 d2 d3 mixed_scale[OF a])
qed

lemma centroid_minor_in_major:
  assumes "0 < triangleSize this"
  shows "pointInTriangle (x (center (shiftTriangle ox oz (cellPair this r c ! 1))))
            (z (center (shiftTriangle ox oz (cellPair this r c ! 1))))
            (shiftTriangle ox oz (cellPair this r' c' ! 0))
         = Inr (\<not> mixed (2 / 3 - (real r' - real r))
                        (- (1 / 3) + (real c' - real c) + (real r' - real r))
                        (2 / 3 - (real c' - real c)))"
proof -
  define s where "s = triangleSize this"
  define h where "h = triangleSize this * sqrt 3 / 2"
  define a where "a = s * h"
  have a: "0 < a" using assms by (simp add: a_def s_def h_def)
  let ?px = "real c * s + real r * (s / 2) + ox + s"
  let ?pz = "real r * h + oz + 2 * h / 3"
  let ?X = "real c' * s + real r' * (s / 2) + ox"
  let ?Z = "real r' * h + oz"
  have d1: "area2 (?px, ?pz) (?X, ?Z) (?X + s, ?Z) = a * (2 / 3 - (real r' - real r))"
    by (simp add: area2_def a_def field_simps)
  have d2: "area2 (?px, ?pz) (?X + s, ?Z) (?X + s / 2, ?Z + h)
              = a * (- (1 / 3) + (real c' - real c) + (real r' - real r))"
    by (simp add: area2_def a_def field_simps)
  have d3: "area2 (?px, ?pz) (?X + s / 2, ?Z + h) (?X, ?Z) = a * (2 / 3 - (real c' - real c))"
    by (simp add: area2_def a_def field_simps)
  have co: "coords (shiftTriangle ox oz (cellPair this r' c' ! 0))
              = [(?X, ?Z), (?X + s, ?Z), (?X + s / 2, ?Z + h)]"
    by (simp add: coords_major Let_def s_def h_def)
  have cx: "x (center (shiftTriangle ox oz (cellPair this r c ! 1))) = ?px"
    and cz: "z (center (shiftTriangle ox oz (cellPair this r c ! 1))) = ?pz"
    by (simp_all add: center_minor Let_def s_def h_def)
  show ?thesis
    unfolding cx cz by (simp only: pointInTriangle_coords[OF co] d1 d2 d3 mixed_scale[OF a])
qed

lemma centroid_minor_in_minor:
  assumes "0 < triangleSize this"
  shows "pointInTriangle (x (center (shiftTriangle ox oz (cellPair this r c ! 1))))
            (z (center (shiftTriangle ox oz (cellPair this r c ! 1))))
            (shiftTriangle ox oz (cellPair this r' c' ! 1))
         = Inr (\<not> mixed (1 / 3 - (real c' - real c) - (real r' - real r))
                        (1 / 3 + (real c' - real c))
                        (1 / 3 + (real r' - real r)))"
proof -
  define s where "s = triangleSize this"
  define h where "h = triangleSize this * sqrt 3 / 2"
  define a where "a = s * h"
  have a: "0 < a" using assms by (simp add: a_def s_def h_def)
  let ?px = "real c * s + real r * (s / 2) + ox + s"
  let ?pz = "real r * h + oz + 2 * h / 3"
  let ?X = "real c' * s + real r' * (s / 2) + ox"
  let ?Z = "real r' * h + oz"
  have d1: "area2 (?px, ?pz) (?X + s / 2, ?Z + h) (?X + s, ?Z) = a * (1 / 3 - (real c' - real c) - (real r' - real r))"
    by (simp add: area2_def a_def field_simps)
  have d2: "area2 (?px, ?pz) (?X + s, ?Z) (?X + 3 * s / 2, ?Z + h)
              = a * (1 / 3 + (real c' - real c))"
    by (simp add: area2_def a_def field_simps)
  have d3: "area2 (?px, ?pz) (?X + 3 * s / 2, ?Z + h) (?X + s / 2, ?Z + h) = a * (1 / 3 + (real r' - real r))"
    by (simp add: area2_def a_def field_simps)
  have co: "coords (shiftTriangle ox oz (cellPair this r' c' ! 1))
              = [(?X + s / 2, ?Z + h), (?X + s, ?Z), (?X + 3 * s / 2, ?Z + h)]"
    by (simp add: coords_minor Let_def s_def h_def)
  have cx: "x (center (shiftTriangle ox oz (cellPair this r c ! 1))) = ?px"
    and cz: "z (center (shiftTriangle ox oz (cellPair this r c ! 1))) = ?pz"
    by (simp_all add: center_minor Let_def s_def h_def)
  show ?thesis
    unfolding cx cz by (simp only: pointInTriangle_coords[OF co] d1 d2 d3 mixed_scale[OF a])
qed

lemma centroid_located:
  assumes "0 < triangleSize this" "j < 2" "j' < 2"
  shows "pointInTriangle (x (center (shiftTriangle ox oz (cellPair this r c ! j))))
            (z (center (shiftTriangle ox oz (cellPair this r c ! j))))
            (shiftTriangle ox oz (cellPair this r' c' ! j'))
         = Inr (r' = r \<and> c' = c \<and> j' = j)"
proof -
  have j: "j = 0 \<or> j = 1" and j': "j' = 0 \<or> j' = 1" using assms by auto
  have rc: "r' = r \<or> real r' + 1 \<le> real r \<or> real r + 1 \<le> real r'"
    and cc: "c' = c \<or> real c' + 1 \<le> real c \<or> real c + 1 \<le> real c'"
    using nat_real_cases[of r' r] nat_real_cases[of c' c] by auto
  have mm: "(\<not> mixed (1 / 3 - (real r' - real r))
                    (1 / 3 + (real c' - real c) + (real r' - real r))
                    (1 / 3 - (real c' - real c))) = (r' = r \<and> c' = c)"
    using rc cc unfolding mixed_def by (auto simp: not_less; linarith)
  have mn: "mixed (- (1 / 3) - (real c' - real c) - (real r' - real r))
                  (2 / 3 + (real c' - real c)) (2 / 3 + (real r' - real r))"
    using rc cc unfolding mixed_def by (auto simp: not_less; linarith)
  have nm: "mixed (2 / 3 - (real r' - real r))
                  (- (1 / 3) + (real c' - real c) + (real r' - real r))
                  (2 / 3 - (real c' - real c))"
    using rc cc unfolding mixed_def by (auto simp: not_less; linarith)
  have nn: "(\<not> mixed (1 / 3 - (real c' - real c) - (real r' - real r))
                    (1 / 3 + (real c' - real c)) (1 / 3 + (real r' - real r))) = (r' = r \<and> c' = c)"
    using rc cc unfolding mixed_def by (auto simp: not_less; linarith)
  from j j' show ?thesis
  proof (elim disjE)
    assume "j = 0" "j' = 0"
    then show ?thesis using centroid_major_in_major[OF assms(1)] mm by simp
  next
    assume "j = 0" "j' = 1"
    then show ?thesis using centroid_major_in_minor[OF assms(1)] mn by simp
  next
    assume "j = 1" "j' = 0"
    then show ?thesis using centroid_minor_in_major[OF assms(1)] nm by simp
  next
    assume "j = 1" "j' = 1"
    then show ?thesis using centroid_minor_in_minor[OF assms(1)] nn by simp
  qed
qed

lemma shifted_mem:
  "t \<in> set (map (shiftTriangle ox oz) (tessellation this)) \<longleftrightarrow>
     (\<exists>r < gridHeight this. \<exists>c < gridWidth this. \<exists>j < 2.
        t = shiftTriangle ox oz (cellPair this r c ! j))"
proof
  assume "t \<in> set (map (shiftTriangle ox oz) (tessellation this))"
  then obtain u where u: "u \<in> set (tessellation this)" and t: "t = shiftTriangle ox oz u"
    by auto
  from u obtain r c where rc: "r < gridHeight this" "c < gridWidth this" "u \<in> set (cellPair this r c)"
    by (auto simp: tessellation_mem)
  from rc(3) have "u = cellPair this r c ! 0 \<or> u = cellPair this r c ! 1"
    by (simp add: cellPair_cases)
  then have "\<exists>j<2. u = cellPair this r c ! j"
    by (metis pos2 one_less_numeral_iff semiring_norm(76))
  then show "\<exists>r < gridHeight this. \<exists>c < gridWidth this. \<exists>j < 2.
        t = shiftTriangle ox oz (cellPair this r c ! j)"
    using rc(1,2) t by blast
next
  assume "\<exists>r < gridHeight this. \<exists>c < gridWidth this. \<exists>j < 2.
        t = shiftTriangle ox oz (cellPair this r c ! j)"
  then obtain r c j where rc: "r < gridHeight this" "c < gridWidth this" "j < 2"
    and t: "t = shiftTriangle ox oz (cellPair this r c ! j)"
    by blast
  have "cellPair this r c ! j \<in> set (cellPair this r c)"
    using rc(3) by (intro nth_mem) (simp add: cellPair_length)
  then have "cellPair this r c ! j \<in> set (tessellation this)"
    using rc(1,2) by (auto simp: tessellation_mem)
  then show "t \<in> set (map (shiftTriangle ox oz) (tessellation this))"
    using t by simp
qed

lemma cellPair_nth_vertices:
  assumes "j < 2"
  shows "length (vertices (cellPair this r c ! j)) = 3"
  using assms by (auto simp: less_2_cases_iff cellPair_def Let_def majorTriangle_def minorTriangle_def)

lemma shifted_wellformed:
  assumes "t \<in> set (map (shiftTriangle ox oz) (tessellation this))"
  shows "length (vertices t) = 3"
  using assms unfolding shifted_mem by (auto simp: shifted_vertices_length cellPair_nth_vertices)

lemma centroid_scan:
  assumes "0 < triangleSize this" "t \<in> set (map (shiftTriangle ox oz) (tessellation this))"
  shows "scanTriangles (x (center t)) (z (center t)) (map (shiftTriangle ox oz) (tessellation this))
           = Inr (Some t)"
proof -
  let ?F = "map (shiftTriangle ox oz) (tessellation this)"
  let ?P = "\<lambda>t'. pointInTriangle (x (center t)) (z (center t)) t' = Inr True"
  from assms(2)[unfolded shifted_mem] obtain r c j
    where rc: "r < gridHeight this" "c < gridWidth this" "j < 2"
    and t: "t = shiftTriangle ox oz (cellPair this r c ! j)"
    by blast
  have own: "?P t"
    unfolding t using centroid_located[OF assms(1) rc(3) rc(3), of ox oz r c r c] by simp
  have other: "\<forall>t' \<in> set ?F. ?P t' \<longrightarrow> t' = t"
  proof (intro ballI impI)
    fix t' assume F: "t' \<in> set ?F" and P: "?P t'"
    from F[unfolded shifted_mem] obtain r' c' j'
      where j': "j' < 2" and t': "t' = shiftTriangle ox oz (cellPair this r' c' ! j')"
      by blast
    from P have "r' = r \<and> c' = c \<and> j' = j"
      unfolding t t' using centroid_located[OF assms(1) rc(3) j', of ox oz r c r' c'] by simp
    then show "t' = t" using t t' by simp
  qed
  have "scanTriangles (x (center t)) (z (center t)) ?F = Inr (find ?P ?F)"
    by (intro scanTriangles_find ballI shifted_wellformed)
  also have "find ?P ?F = Some t"
    using assms(2) own other by (rule find_unique)
  finally show ?thesis .
qed

lemma lattice_area:
  "area2 (X, Z) (X + s, Z) (X + s / 2, Z + h) = s * h"
  "area2 (X + s / 2, Z + h) (X + s, Z) (X + 3 * s / 2, Z + h) = s * h"
  by (simp_all add: area2_def field_simps)



section \<open>The game session\<close>

lemma cellPair_triangles_update [simp]: "cellPair (this\<lparr>triangles := ts\<rparr>) = cellPair this"
  by (intro ext) (simp add: cellPair_def)

lemma tessellation_triangles_update [simp]:
  "tessellation (this\<lparr>triangles := ts\<rparr>) = tessellation this"
  by (simp add: tessellation_def)

lemma TonnetzSystem_new_eq:
  "TonnetzSystem_new =
     Inr ((withGrid TonnetzSystem_fields)\<lparr>triangles := tessellation (withGrid TonnetzSystem_fields)\<rparr>)"
proof -
  have "generateGrid TonnetzSystem_fields = Inr (gridRows TonnetzSystem_fields)"
    by (rule generateGrid_returns) (simp add: TonnetzSystem_fields_def)
  then have "TonnetzSystem_new = withTriangles (withGrid TonnetzSystem_fields)"
    by (simp add: TonnetzSystem_new_def withGrid_def bind_def)
  then show ?thesis
    by (simp add: withTriangles_def bind_def generateTriangles_closed[OF withGrid_consistent])
qed

lemma init_tonnetz:
  "tonnetz (init (TonnetzGame_fields sys)) =
     sys\<lparr>triangles :=
           map (shiftTriangle (- (real (gridWidth sys) * triangleSize sys) / 2)
                              (- (real (gridHeight sys) * (triangleSize sys * sqrt 3 / 2)) / 2))
               (triangles sys)\<rparr>"
  by (simp add: init_def createPlayer_def createTonnetzGrid_def TonnetzGame_fields_def Let_def)

lemma checkPlayerPosition_tonnetz:
  assumes "\<forall>t \<in> set (triangles (tonnetz g)). length (vertices t) = 3"
  shows "\<exists>g'. checkPlayerPosition g = Inr g' \<and> tonnetz g' = tonnetz g"
proof -
  have "findTriangleAtPosition (tonnetz g) (x (player g)) (z (player g))
          = Inr (find (\<lambda>t. pointInTriangle (x (player g)) (z (player g)) t = Inr True)
                      (triangles (tonnetz g)))"
    unfolding findTriangleAtPosition_def by (rule scanTriangles_find[OF assms])
  then show ?thesis
    by (simp add: checkPlayerPosition_def bind_def split: option.splits)
qed

lemma updatePlayer_tonnetz:
  assumes "\<forall>t \<in> set (triangles (tonnetz g)). length (vertices t) = 3"
  shows "\<exists>g'. updatePlayer g = Inr g' \<and> tonnetz g' = tonnetz g"
proof -
  have "\<exists>g'. checkPlayerPosition (g\<lparr>velocity := v, player := p\<rparr>) = Inr g'
          \<and> tonnetz g' = tonnetz (g\<lparr>velocity := v, player := p\<rparr>)" for v p
    by (rule checkPlayerPosition_tonnetz) (use assms in simp)
  then show ?thesis
    unfolding updatePlayer_def Let_def by simp
qed

lemma handle_tonnetz:
  assumes "\<forall>t \<in> set (triangles (tonnetz g)). length (vertices t) = 3"
  shows "\<exists>g'. handle e g = Inr g' \<and> tonnetz g' = tonnetz g"
  using updatePlayer_tonnetz[OF assms] by (cases e) (simp_all add: animate_def)

lemma run_tonnetz:
  assumes "\<forall>t \<in> set (triangles (tonnetz g)). length (vertices t) = 3"
  shows "\<exists>g'. run es g = Inr g' \<and> tonnetz g' = tonnetz g"
  using assms
proof (induction es arbitrary: g)
  case Nil
  then show ?case by simp
next
  case (Cons e es)
  from handle_tonnetz[OF Cons.prems, of e]
  obtain g1 where g1: "handle e g = Inr g1" "tonnetz g1 = tonnetz g" by blast
  from Cons.IH[of g1] Cons.prems g1(2)
  obtain g' where "run es g1 = Inr g'" "tonnetz g' = tonnetz g1" by auto
  then show ?case using g1 by (simp add: bind_def)
qed

lemma TonnetzGame_new_tonnetz:
  "\<exists>g0. TonnetzGame_new = Inr g0
     \<and> tonnetz g0 = (withGrid TonnetzSystem_fields)\<lparr>triangles :=
          map (shiftTriangle (- (12 * 3) / 2) (- (8 * (3 * sqrt 3 / 2)) / 2))
              (tessellation (withGrid TonnetzSystem_fields))\<rparr>"
proof -
  let ?sys = "(withGrid TonnetzSystem_fields)\<lparr>triangles := tessellation (withGrid TonnetzSystem_fields)\<rparr>"
  let ?g = "init (TonnetzGame_fields ?sys)"
  have t: "tonnetz ?g = (withGrid TonnetzSystem_fields)\<lparr>triangles :=
          map (shiftTriangle (- (12 * 3) / 2) (- (8 * (3 * sqrt 3 / 2)) / 2))
              (tessellation (withGrid TonnetzSystem_fields))\<rparr>"
    unfolding init_tonnetz by simp
  have wf: "\<forall>t \<in> set (triangles (tonnetz ?g)). length (vertices t) = 3"
    unfolding t using shifted_wellformed by simp
  from updatePlayer_tonnetz[OF wf] obtain g0 where "animate ?g = Inr g0" "tonnetz g0 = tonnetz ?g"
    unfolding animate_def by blast
  then show ?thesis
    unfolding TonnetzGame_new_def TonnetzSystem_new_eq t[symmetric] by (simp add: bind_def)
qed


lemma default_first_triangle:
  "tessellation (withGrid TonnetzSystem_fields) \<noteq> []"
  "hd (tessellation (withGrid TonnetzSystem_fields)) = cellPair (withGrid TonnetzSystem_fields) 0 0 ! 0"
proof -
  have len: "length (tessellation (withGrid TonnetzSystem_fields)) = 192"
    by (simp add: tessellation_length)
  then show ne: "tessellation (withGrid TonnetzSystem_fields) \<noteq> []" by auto
  have "tessellation (withGrid TonnetzSystem_fields) ! (2 * (0 * gridWidth (withGrid TonnetzSystem_fields) + 0) + 0)
          = cellPair (withGrid TonnetzSystem_fields) 0 0 ! 0"
    by (rule tessellation_nth) simp_all
  then show "hd (tessellation (withGrid TonnetzSystem_fields)) = cellPair (withGrid TonnetzSystem_fields) 0 0 ! 0"
    using ne by (simp add: hd_conv_nth)
qed

lemma default_first_vertex:
  "vertices (tessellation (withGrid TonnetzSystem_fields) ! 0) \<noteq> []"
  "x (vertices (tessellation (withGrid TonnetzSystem_fields) ! 0) ! 0) = 0"
  "z (vertices (tessellation (withGrid TonnetzSystem_fields) ! 0) ! 0) = 0"
proof -
  have "tessellation (withGrid TonnetzSystem_fields) ! (2 * (0 * gridWidth (withGrid TonnetzSystem_fields) + 0) + 0)
          = cellPair (withGrid TonnetzSystem_fields) 0 0 ! 0"
    by (rule tessellation_nth) simp_all
  then have e: "tessellation (withGrid TonnetzSystem_fields) ! 0 = cellPair (withGrid TonnetzSystem_fields) 0 0 ! 0"
    by simp
  show "vertices (tessellation (withGrid TonnetzSystem_fields) ! 0) \<noteq> []"
    "x (vertices (tessellation (withGrid TonnetzSystem_fields) ! 0) ! 0) = 0"
    "z (vertices (tessellation (withGrid TonnetzSystem_fields) ! 0) ! 0) = 0"
    unfolding e
    by (simp_all add: cellPair_def Let_def majorTriangle_def mkVertex_def getVertexPosition_def)
qed

section \<open>The version of src/unnamed/part_000\<close>

lemma generateGrid_p0_length: "length (generateGrid_p0 this) = gridHeight this + 1"
  by (simp add: generateGrid_p0_def)

lemma generateGrid_p0_row_length:
  "r \<le> gridHeight this \<Longrightarrow> length (generateGrid_p0 this ! r) = gridWidth this + 1"
  by (simp add: generateGrid_p0_def nth_append less_Suc_eq_le)

lemma generateGrid_p0_nth:
  assumes "r \<le> gridHeight this" "c \<le> gridWidth this"
  shows "generateGrid_p0 this ! r ! c
           = js_rem (int r * majorThirdInterval this + int c * fifthInterval this) 12"
proof -
  have r': "r < length [0..<gridHeight this + 1]" using assms by simp
  have c': "c < length [0..<gridWidth this + 1]" using assms by simp
  have "[0..<gridHeight this + 1] ! r = r"
    using assms by (metis add_0 less_Suc_eq_le nth_upt Suc_eq_plus1)
  moreover have "[0..<gridWidth this + 1] ! c = c"
    using assms by (metis add_0 less_Suc_eq_le nth_upt Suc_eq_plus1)
  ultimately show ?thesis
    unfolding generateGrid_p0_def using r' c' by (simp only: nth_map)
qed

lemma generateGrid_p0_grid_update [simp]:
  "generateGrid_p0 (this\<lparr>grid := g\<rparr>) = generateGrid_p0 this"
  unfolding generateGrid_p0_def by simp

lemma withGrid_p0_consistent: "grid (withGrid_p0 this) = generateGrid_p0 (withGrid_p0 this)"
  by (simp add: withGrid_p0_def)

lemma withGrid_p0_fields [simp]:
  "gridWidth (withGrid_p0 this) = gridWidth this"
  "gridHeight (withGrid_p0 this) = gridHeight this"
  "triangleSize (withGrid_p0 this) = triangleSize this"
  "majorThirdInterval (withGrid_p0 this) = majorThirdInterval this"
  "fifthInterval (withGrid_p0 this) = fifthInterval this"
  "noteNames (withGrid_p0 this) = noteNames this"
  by (simp_all add: withGrid_p0_def)

lemma fields_p0_values [simp]:
  "gridWidth TonnetzSystem_p0_fields = 12"
  "gridHeight TonnetzSystem_p0_fields = 8"
  "triangleSize TonnetzSystem_p0_fields = 3"
  "majorThirdInterval TonnetzSystem_p0_fields = 4"
  "fifthInterval TonnetzSystem_p0_fields = 7"
  "length (noteNames TonnetzSystem_p0_fields) = 12"
  by (simp_all add: TonnetzSystem_p0_fields_def)

lemma generateGrid_p0_cell:
  assumes "majorThirdInterval this = 4" "fifthInterval this = 7"
    "r \<le> gridHeight this" "c \<le> gridWidth this"
  shows "generateGrid_p0 this ! r ! c = (int r * 4 + int c * 7) mod 12"
  using assms by (simp add: generateGrid_p0_nth js_rem_nonneg)

lemma gridAt_p0_generateGrid:
  "r \<le> gridHeight this \<Longrightarrow> c \<le> gridWidth this \<Longrightarrow>
   gridAt_p0 (generateGrid_p0 this) r c = Inr (generateGrid_p0 this ! r ! c)"
  by (simp add: gridAt_p0_def js_index_def generateGrid_p0_length generateGrid_p0_row_length)

lemma noteNameAt_ok:
  assumes "0 \<le> pc" "pc < int (length names)"
  shows "noteNameAt names pc = Inr (names ! nat pc)"
  using assms by (simp add: noteNameAt_def js_index_def)

lemma cellTriangles_p0_ok:
  assumes "grid this = generateGrid_p0 this" "majorThirdInterval this = 4" "fifthInterval this = 7"
    "length (noteNames this) = 12" "r < gridHeight this" "c < gridWidth this"
  shows "cellTriangles_p0 this (triangleSize this) (triangleSize this * sqrt 3 / 2) r c acc
           = Inr (acc @ cellPair_p0 this r c)"
proof -
  have g: "gridAt_p0 (grid this) i j = Inr (grid this ! i ! j)"
    if "i \<le> gridHeight this" "j \<le> gridWidth this" for i j
    using gridAt_p0_generateGrid[OF that] assms(1) by simp
  have n: "noteNameAt (noteNames this) (grid this ! i ! j) = Inr (noteNames this ! nat (grid this ! i ! j))"
    if "i \<le> gridHeight this" "j \<le> gridWidth this" for i j
  proof -
    have "grid this ! i ! j = (int i * 4 + int j * 7) mod 12"
      using generateGrid_p0_cell[OF assms(2,3) that] assms(1) by simp
    then show ?thesis using assms(4) by (intro noteNameAt_ok) simp_all
  qed
  have g00: "gridAt_p0 (grid this) r c = Inr (grid this ! r ! c)"
    and g01: "gridAt_p0 (grid this) r (c + 1) = Inr (grid this ! r ! (c + 1))"
    and g10: "gridAt_p0 (grid this) (r + 1) c = Inr (grid this ! (r + 1) ! c)"
    and g11: "gridAt_p0 (grid this) (r + 1) (c + 1) = Inr (grid this ! (r + 1) ! (c + 1))"
    and n0: "noteNameAt (noteNames this) (grid this ! r ! c) = Inr (noteNames this ! nat (grid this ! r ! c))"
    and n2: "noteNameAt (noteNames this) (grid this ! (r + 1) ! c)
               = Inr (noteNames this ! nat (grid this ! (r + 1) ! c))"
    using g[of r c] g[of r "c + 1"] g[of "r + 1" c] g[of "r + 1" "c + 1"] n[of r c] n[of "r + 1" c]
      assms(5,6) by simp_all
  show ?thesis
    unfolding cellTriangles_p0_def cellPair_p0_def Let_def g00 g01 g10 g11
    using n0 n2 by (simp add: bind_def)
qed

lemma generateTriangles_p0_closed:
  assumes "grid this = generateGrid_p0 this" "majorThirdInterval this = 4" "fifthInterval this = 7"
    "length (noteNames this) = 12"
  shows "generateTriangles_p0 this = Inr (tessellation_p0 this)"
proof -
  let ?tw = "triangleSize this" and ?th = "triangleSize this * sqrt 3 / 2"
  have inner: "for_loop [0 ..< gridWidth this] (cellTriangles_p0 this ?tw ?th r) s
                 = for_loop [0 ..< gridWidth this] (\<lambda>c s. Inr (s @ cellPair_p0 this r c)) s"
    if "r \<in> set [0 ..< gridHeight this]" for r s
    using that assms by (intro for_loop_cong) (simp add: cellTriangles_p0_ok)
  have "generateTriangles_p0 this
          = for_loop [0 ..< gridHeight this]
              (\<lambda>r. for_loop [0 ..< gridWidth this] (\<lambda>c s. Inr (s @ cellPair_p0 this r c))) []"
    unfolding generateTriangles_p0_def Let_def
    by (rule for_loop_cong) (rule inner)
  then show ?thesis
    by (simp add: for_loop_nested_push tessellation_p0_def)
qed

lemma cellPair_p0_length: "length (cellPair_p0 this r c) = 2"
  by (simp add: cellPair_p0_def Let_def)

lemma rowBlock_p0_length:
  "length (concat (map (cellPair_p0 this r) [0 ..< gridWidth this])) = gridWidth this * 2"
  by (rule concat_blocks_length) (rule cellPair_p0_length)

lemma tessellation_p0_length: "length (tessellation_p0 this) = 2 * gridWidth this * gridHeight this"
proof -
  have "length (tessellation_p0 this) = gridHeight this * (gridWidth this * 2)"
    unfolding tessellation_p0_def by (rule concat_blocks_length) (rule rowBlock_p0_length)
  then show ?thesis by simp
qed

lemma tessellation_p0_nth:
  assumes "r < gridHeight this" "c < gridWidth this" "j < 2"
  shows "tessellation_p0 this ! (2 * (r * gridWidth this + c) + j) = cellPair_p0 this r c ! j"
proof -
  have idx: "2 * (r * gridWidth this + c) + j = r * (gridWidth this * 2) + (c * 2 + j)"
    by (simp add: algebra_simps)
  have lt: "c * 2 + j < gridWidth this * 2" using assms by simp
  have "tessellation_p0 this ! (r * (gridWidth this * 2) + (c * 2 + j))
          = concat (map (cellPair_p0 this r) [0 ..< gridWidth this]) ! (c * 2 + j)"
    unfolding tessellation_p0_def
    by (rule concat_blocks_nth) (use assms lt in \<open>simp_all add: rowBlock_p0_length\<close>)
  also have "\<dots> = cellPair_p0 this r c ! j"
    by (rule concat_blocks_nth) (use assms in \<open>simp_all add: cellPair_p0_length\<close>)
  finally show ?thesis unfolding idx .
qed

lemma p0_default_consistent:
  "grid (withGrid_p0 TonnetzSystem_p0_fields) = generateGrid_p0 (withGrid_p0 TonnetzSystem_p0_fields)"
  "majorThirdInterval (withGrid_p0 TonnetzSystem_p0_fields) = 4"
  "fifthInterval (withGrid_p0 TonnetzSystem_p0_fields) = 7"
  "length (noteNames (withGrid_p0 TonnetzSystem_p0_fields)) = 12"
  by (simp_all add: withGrid_p0_consistent)

lemma js_rem_2: "js_rem 2 2 = 0" "js_rem 1 2 = 1"
  by (simp_all add: js_rem_def)

lemma getVertexPosition_rule:
  assumes "grid this = gridRows this" "r < gridHeight this" "c < gridWidth this"
  shows "\<exists>ts. generateTriangles this = Inr ts
     \<and> map (\<lambda>v. (x v, z v)) (vertices (ts ! (2 * (r * gridWidth this + c)))) =
         [(real c * triangleSize this + real r * (triangleSize this / 2),
           real r * (triangleSize this * sqrt 3 / 2)),
          (real (c + 1) * triangleSize this + real r * (triangleSize this / 2),
           real r * (triangleSize this * sqrt 3 / 2)),
          (real c * triangleSize this + real (r + 1) * (triangleSize this / 2),
           real (r + 1) * (triangleSize this * sqrt 3 / 2))]
     \<and> map (\<lambda>v. (x v, z v)) (vertices (ts ! (2 * (r * gridWidth this + c) + 1))) =
         [(real c * triangleSize this + real (r + 1) * (triangleSize this / 2),
           real (r + 1) * (triangleSize this * sqrt 3 / 2)),
          (real (c + 1) * triangleSize this + real r * (triangleSize this / 2),
           real r * (triangleSize this * sqrt 3 / 2)),
          (real (c + 1) * triangleSize this + real (r + 1) * (triangleSize this / 2),
           real (r + 1) * (triangleSize this * sqrt 3 / 2))]"
proof -
  have a: "tessellation this ! (2 * (r * gridWidth this + c)) = cellPair this r c ! 0"
    using tessellation_nth[OF assms(2,3), of 0] by simp
  have b: "tessellation this ! (2 * (r * gridWidth this + c) + 1) = cellPair this r c ! 1"
    using tessellation_nth[OF assms(2,3), of 1] by simp
  have A: "map (\<lambda>v. (x v, z v)) (vertices (tessellation this ! (2 * (r * gridWidth this + c)))) =
         [(real c * triangleSize this + real r * (triangleSize this / 2),
           real r * (triangleSize this * sqrt 3 / 2)),
          (real (c + 1) * triangleSize this + real r * (triangleSize this / 2),
           real r * (triangleSize this * sqrt 3 / 2)),
          (real c * triangleSize this + real (r + 1) * (triangleSize this / 2),
           real (r + 1) * (triangleSize this * sqrt 3 / 2))]"
    unfolding a
    by (simp add: cellPair_def Let_def majorTriangle_def mkVertex_def getVertexPosition_def)
  have B: "map (\<lambda>v. (x v, z v)) (vertices (tessellation this ! (2 * (r * gridWidth this + c) + 1))) =
         [(real c * triangleSize this + real (r + 1) * (triangleSize this / 2),
           real (r + 1) * (triangleSize this * sqrt 3 / 2)),
          (real (c + 1) * triangleSize this + real r * (triangleSize this / 2),
           real r * (triangleSize this * sqrt 3 / 2)),
          (real (c + 1) * triangleSize this + real (r + 1) * (triangleSize this / 2),
           real (r + 1) * (triangleSize this * sqrt 3 / 2))]"
    unfolding b
    by (simp add: cellPair_def Let_def minorTriangle_def mkVertex_def getVertexPosition_def)
  show ?thesis
    by (intro exI[of _ "tessellation this"] conjI generateTriangles_closed[OF assms(1)] A B)
qed

lemma nat_to_string_60: "nat_to_string 60 = ''60''" "nat_to_string 4 = ''4''"
  "nat_to_string 3 = ''3''" "nat_to_string 7 = ''7''"
  by (simp_all add: nat_to_string.simps[of 60] nat_to_string.simps[of 6] nat_to_string.simps[of 4]
      nat_to_string.simps[of 3] nat_to_string.simps[of 7] digit_def)

lemma gridRead_gridRows:
  assumes "r \<le> gridHeight this" "c \<le> gridWidth this"
  shows "gridRead val (gridRows this) r c = Inr (val (gridRows this ! r ! c))"
  using assms by (simp add: gridRead_def js_index_def gridRows_length gridRows_row_length)

lemma gridRead_generateGrid_p0:
  assumes "r \<le> gridHeight this" "c \<le> gridWidth this"
  shows "gridRead val (generateGrid_p0 this) r c = Inr (val (generateGrid_p0 this ! r ! c))"
  using assms by (simp add: gridRead_def js_index_def generateGrid_p0_length generateGrid_p0_row_length)

lemma TonnetzSystem_p0_new_eq:
  "TonnetzSystem_p0_new =
     Inr ((withGrid_p0 TonnetzSystem_p0_fields)\<lparr>triangles := tessellation_p0 (withGrid_p0 TonnetzSystem_p0_fields)\<rparr>)"
  by (simp add: TonnetzSystem_p0_new_def withTriangles_p0_def bind_def
      generateTriangles_p0_closed[OF p0_default_consistent])

text \<open>Signed areas of the two triangle shapes of a lattice row.\<close>

lemma up_areas:
  "area2 (px, pz) (X, Z) (X + s, Z) = s * (pz - Z)"
  "area2 (px, pz) (X + s, Z) (X + s / 2, Z + h) = s * h - h * (px - X) - (s / 2) * (pz - Z)"
  "area2 (px, pz) (X + s / 2, Z + h) (X, Z) = h * (px - X) - (s / 2) * (pz - Z)"
  by (simp_all add: area2_def field_simps)

lemma down_areas:
  "area2 (px, pz) (X + s / 2, Z + h) (X + s, Z) = h * (px - X) + (s / 2) * (pz - Z) - s * h"
  "area2 (px, pz) (X + s, Z) (X + 3 * s / 2, Z + h) = s * h - h * (px - X) + (s / 2) * (pz - Z)"
  "area2 (px, pz) (X + 3 * s / 2, Z + h) (X + s / 2, Z + h) = s * (Z + h - pz)"
  by (simp_all add: area2_def field_simps)

lemma row_step:
  fixes s h :: real
  assumes "0 < s" "0 < h" "c \<noteq> c'"
  shows "s * h \<le> h * (real c * s - real c' * s) \<or> h * (real c * s - real c' * s) \<le> - (s * h)"
proof -
  have a: "0 < s * h" using assms by simp
  have e: "h * (real c * s - real c' * s) = (s * h) * (real c - real c')"
    by (simp add: algebra_simps)
  from nat_real_cases[of c c'] assms(3)
  have "1 \<le> real c - real c' \<or> real c - real c' \<le> - 1" by linarith
  then show ?thesis
  proof
    assume "1 \<le> real c - real c'"
    then have "(s * h) * 1 \<le> (s * h) * (real c - real c')"
      using a by (intro mult_left_mono) simp_all
    then show ?thesis unfolding e by simp
  next
    assume "real c - real c' \<le> - 1"
    then have "(s * h) * (real c - real c') \<le> (s * h) * (- 1)"
      using a by (intro mult_left_mono) simp_all
    then show ?thesis unfolding e by simp
  qed
qed

text \<open>A centroid against a triangle of the same row: \<open>t\<close> is \<open>h\<close> times the distance
  between the two cells.\<close>

lemma same_row_centroid:
  fixes s h :: real
  assumes "0 < s" "0 < h" "t = h * (X - X')"
  shows "mixed (area2 (X + s / 2, Z + h / 3) (X', Z) (X' + s, Z))
               (area2 (X + s / 2, Z + h / 3) (X' + s, Z) (X' + s / 2, Z + h))
               (area2 (X + s / 2, Z + h / 3) (X' + s / 2, Z + h) (X', Z))
           \<longleftrightarrow> \<not> (- (s * h) / 3 \<le> t \<and> t \<le> s * h / 3)"
    and "s * h \<le> t \<or> t \<le> - (s * h) \<or> t = 0 \<Longrightarrow>
         mixed (area2 (X + s / 2, Z + h / 3) (X' + s / 2, Z + h) (X' + s, Z))
               (area2 (X + s / 2, Z + h / 3) (X' + s, Z) (X' + 3 * s / 2, Z + h))
               (area2 (X + s / 2, Z + h / 3) (X' + 3 * s / 2, Z + h) (X' + s / 2, Z + h))"
    and "s * h \<le> t \<or> t \<le> - (s * h) \<or> t = 0 \<Longrightarrow>
         mixed (area2 (X + s, Z + 2 * h / 3) (X', Z) (X' + s, Z))
               (area2 (X + s, Z + 2 * h / 3) (X' + s, Z) (X' + s / 2, Z + h))
               (area2 (X + s, Z + 2 * h / 3) (X' + s / 2, Z + h) (X', Z))"
    and "mixed (area2 (X + s, Z + 2 * h / 3) (X' + s / 2, Z + h) (X' + s, Z))
               (area2 (X + s, Z + 2 * h / 3) (X' + s, Z) (X' + 3 * s / 2, Z + h))
               (area2 (X + s, Z + 2 * h / 3) (X' + 3 * s / 2, Z + h) (X' + s / 2, Z + h))
           \<longleftrightarrow> \<not> (- (s * h) / 3 \<le> t \<and> t \<le> s * h / 3)"
proof -
  define a where "a = s * h"
  have a: "0 < a" using assms by (simp add: a_def)
  have uu: "area2 (X + s / 2, Z + h / 3) (X', Z) (X' + s, Z) = a / 3"
    "area2 (X + s / 2, Z + h / 3) (X' + s, Z) (X' + s / 2, Z + h) = a / 3 - t"
    "area2 (X + s / 2, Z + h / 3) (X' + s / 2, Z + h) (X', Z) = a / 3 + t"
    unfolding up_areas assms(3) a_def by (simp_all add: field_simps)
  have ud: "area2 (X + s / 2, Z + h / 3) (X' + s / 2, Z + h) (X' + s, Z) = - a / 3 + t"
    "area2 (X + s / 2, Z + h / 3) (X' + s, Z) (X' + 3 * s / 2, Z + h) = 2 * a / 3 - t"
    "area2 (X + s / 2, Z + h / 3) (X' + 3 * s / 2, Z + h) (X' + s / 2, Z + h) = 2 * a / 3"
    unfolding down_areas assms(3) a_def by (simp_all add: field_simps)
  have du: "area2 (X + s, Z + 2 * h / 3) (X', Z) (X' + s, Z) = 2 * a / 3"
    "area2 (X + s, Z + 2 * h / 3) (X' + s, Z) (X' + s / 2, Z + h) = - a / 3 - t"
    "area2 (X + s, Z + 2 * h / 3) (X' + s / 2, Z + h) (X', Z) = 2 * a / 3 + t"
    unfolding up_areas assms(3) a_def by (simp_all add: field_simps)
  have dd: "area2 (X + s, Z + 2 * h / 3) (X' + s / 2, Z + h) (X' + s, Z) = a / 3 + t"
    "area2 (X + s, Z + 2 * h / 3) (X' + s, Z) (X' + 3 * s / 2, Z + h) = a / 3 - t"
    "area2 (X + s, Z + 2 * h / 3) (X' + 3 * s / 2, Z + h) (X' + s / 2, Z + h) = a / 3"
    unfolding down_areas assms(3) a_def by (simp_all add: field_simps)
  show "mixed (area2 (X + s / 2, Z + h / 3) (X', Z) (X' + s, Z))
               (area2 (X + s / 2, Z + h / 3) (X' + s, Z) (X' + s / 2, Z + h))
               (area2 (X + s / 2, Z + h / 3) (X' + s / 2, Z + h) (X', Z))
           \<longleftrightarrow> \<not> (- (s * h) / 3 \<le> t \<and> t \<le> s * h / 3)"
    unfolding uu mixed_def a_def[symmetric] using a by (auto simp: not_less; linarith)
  show "s * h \<le> t \<or> t \<le> - (s * h) \<or> t = 0 \<Longrightarrow>
         mixed (area2 (X + s / 2, Z + h / 3) (X' + s / 2, Z + h) (X' + s, Z))
               (area2 (X + s / 2, Z + h / 3) (X' + s, Z) (X' + 3 * s / 2, Z + h))
               (area2 (X + s / 2, Z + h / 3) (X' + 3 * s / 2, Z + h) (X' + s / 2, Z + h))"
    unfolding ud mixed_def a_def[symmetric] using a by (auto simp: not_less; linarith)
  show "s * h \<le> t \<or> t \<le> - (s * h) \<or> t = 0 \<Longrightarrow>
         mixed (area2 (X + s, Z + 2 * h / 3) (X', Z) (X' + s, Z))
               (area2 (X + s, Z + 2 * h / 3) (X' + s, Z) (X' + s / 2, Z + h))
               (area2 (X + s, Z + 2 * h / 3) (X' + s / 2, Z + h) (X', Z))"
    unfolding du mixed_def a_def[symmetric] using a by (auto simp: not_less; linarith)
  show "mixed (area2 (X + s, Z + 2 * h / 3) (X' + s / 2, Z + h) (X' + s, Z))
               (area2 (X + s, Z + 2 * h / 3) (X' + s, Z) (X' + 3 * s / 2, Z + h))
               (area2 (X + s, Z + 2 * h / 3) (X' + 3 * s / 2, Z + h) (X' + s / 2, Z + h))
           \<longleftrightarrow> \<not> (- (s * h) / 3 \<le> t \<and> t \<le> s * h / 3)"
    unfolding dd mixed_def a_def[symmetric] using a by (auto simp: not_less; linarith)
qed

lemma other_row_mixed:
  fixes s h :: real
  assumes "0 < s" "0 < h" "Z < pz" "pz < Z + h" "Z' + h \<le> Z \<or> Z + h \<le> Z'"
  shows "mixed (area2 (px, pz) (X', Z') (X' + s, Z'))
               (area2 (px, pz) (X' + s, Z') (X' + s / 2, Z' + h))
               (area2 (px, pz) (X' + s / 2, Z' + h) (X', Z'))"
    and "mixed (area2 (px, pz) (X' + s / 2, Z' + h) (X' + s, Z'))
               (area2 (px, pz) (X' + s, Z') (X' + 3 * s / 2, Z' + h))
               (area2 (px, pz) (X' + 3 * s / 2, Z' + h) (X' + s / 2, Z' + h))"
proof -
  have sh: "s * h \<noteq> 0" using assms by simp
  show "mixed (area2 (px, pz) (X', Z') (X' + s, Z'))
               (area2 (px, pz) (X' + s, Z') (X' + s / 2, Z' + h))
               (area2 (px, pz) (X' + s / 2, Z' + h) (X', Z'))"
  proof (rule ccontr)
    assume nm: "\<not> ?thesis"
    have "X' \<le> fst (px, pz) \<and> fst (px, pz) \<le> X' + s \<and> Z' \<le> snd (px, pz) \<and> snd (px, pz) \<le> Z' + h"
      by (rule inside_bounding_box[OF nm]) (use assms sh in \<open>simp_all add: lattice_area\<close>)
    then show False using assms by auto
  qed
  show "mixed (area2 (px, pz) (X' + s / 2, Z' + h) (X' + s, Z'))
               (area2 (px, pz) (X' + s, Z') (X' + 3 * s / 2, Z' + h))
               (area2 (px, pz) (X' + 3 * s / 2, Z' + h) (X' + s / 2, Z' + h))"
  proof (rule ccontr)
    assume nm: "\<not> ?thesis"
    have "X' \<le> fst (px, pz) \<and> fst (px, pz) \<le> X' + 3 * s / 2 \<and> Z' \<le> snd (px, pz) \<and> snd (px, pz) \<le> Z' + h"
      by (rule inside_bounding_box[OF nm]) (use assms sh in \<open>simp_all add: lattice_area\<close>)
    then show False using assms by auto
  qed
qed

lemma row_height_step:
  fixes h :: real
  assumes "0 < h" "r \<noteq> r'"
  shows "real r' * h + oz + h \<le> real r * h + oz \<or> real r * h + oz + h \<le> real r' * h + oz"
proof -
  from nat_real_cases[of r r'] assms(2)
  have "real r' + 1 \<le> real r \<or> real r + 1 \<le> real r'" by linarith
  then show ?thesis
  proof
    assume "real r' + 1 \<le> real r"
    then have "(real r' + 1) * h \<le> real r * h" using assms(1) by (intro mult_right_mono) simp_all
    then show ?thesis by (simp add: algebra_simps)
  next
    assume "real r + 1 \<le> real r'"
    then have "(real r + 1) * h \<le> real r' * h" using assms(1) by (intro mult_right_mono) simp_all
    then show ?thesis by (simp add: algebra_simps)
  qed
qed

lemma cellPair_p0_cases:
  "t \<in> set (cellPair_p0 this r c) \<longleftrightarrow> t = cellPair_p0 this r c ! 0 \<or> t = cellPair_p0 this r c ! 1"
  by (auto simp: cellPair_p0_def Let_def)

lemma tessellation_p0_mem:
  "t \<in> set (tessellation_p0 this) \<longleftrightarrow>
     (\<exists>r < gridHeight this. \<exists>c < gridWidth this. t \<in> set (cellPair_p0 this r c))"
  unfolding tessellation_p0_def by (simp add: Bex_def)

lemma shifted_p0_vertices_length:
  "length (vertices (shiftTriangle_p0 ox oz t)) = length (vertices t)"
  by (simp add: shiftTriangle_p0_def)

lemma shifted_p0_key [simp]:
  "row (shiftTriangle_p0 ox oz t) = row t" "col (shiftTriangle_p0 ox oz t) = col t"
  "type (shiftTriangle_p0 ox oz t) = type t" "chord (shiftTriangle_p0 ox oz t) = chord t"
  by (simp_all add: shiftTriangle_p0_def)

lemma coords_p0_major:
  "coords (shiftTriangle_p0 ox oz (cellPair_p0 this r c ! 0)) =
     (let s = triangleSize this; h = triangleSize this * sqrt 3 / 2;
          X = real c * s + real_of_int (js_rem (int r) 2) * (s / 2) + ox; Z = real r * h + oz
      in [(X, Z), (X + s, Z), (X + s / 2, Z + h)])"
  by (simp add: coords_def shiftTriangle_p0_def shiftVertex_p0_def cellPair_p0_def Let_def
      mkVertex_p0_def field_simps)

lemma coords_p0_minor:
  "coords (shiftTriangle_p0 ox oz (cellPair_p0 this r c ! Suc 0)) =
     (let s = triangleSize this; h = triangleSize this * sqrt 3 / 2;
          X = real c * s + real_of_int (js_rem (int r) 2) * (s / 2) + ox; Z = real r * h + oz
      in [(X + s / 2, Z + h), (X + s, Z), (X + 3 * s / 2, Z + h)])"
  by (simp add: coords_def shiftTriangle_p0_def shiftVertex_p0_def cellPair_p0_def Let_def
      mkVertex_p0_def field_simps)

lemma center_p0_major:
  "center (shiftTriangle_p0 ox oz (cellPair_p0 this r c ! 0)) =
     (let s = triangleSize this; h = triangleSize this * sqrt 3 / 2;
          X = real c * s + real_of_int (js_rem (int r) 2) * (s / 2) + ox; Z = real r * h + oz
      in \<lparr>x = X + s / 2, z = Z + h / 3\<rparr>)"
  by (simp add: shiftTriangle_p0_def cellPair_p0_def Let_def field_simps)

lemma center_p0_minor:
  "center (shiftTriangle_p0 ox oz (cellPair_p0 this r c ! Suc 0)) =
     (let s = triangleSize this; h = triangleSize this * sqrt 3 / 2;
          X = real c * s + real_of_int (js_rem (int r) 2) * (s / 2) + ox; Z = real r * h + oz
      in \<lparr>x = X + s, z = Z + 2 * h / 3\<rparr>)"
  by (simp add: shiftTriangle_p0_def cellPair_p0_def Let_def field_simps)

lemma centroid_located_p0:
  assumes "0 < triangleSize this" "j < 2" "j' < 2"
  shows "pointInTriangle (x (center (shiftTriangle_p0 ox oz (cellPair_p0 this r c ! j))))
            (z (center (shiftTriangle_p0 ox oz (cellPair_p0 this r c ! j))))
            (shiftTriangle_p0 ox oz (cellPair_p0 this r' c' ! j'))
         = Inr (r' = r \<and> c' = c \<and> j' = j)"
proof -
  define s where "s = triangleSize this"
  define h where "h = triangleSize this * sqrt 3 / 2"
  have s: "0 < s" and h: "0 < h" using assms(1) by (simp_all add: s_def h_def)
  define X where "X = real c * s + real_of_int (js_rem (int r) 2) * (s / 2) + ox"
  define Z where "Z = real r * h + oz"
  define X' where "X' = real c' * s + real_of_int (js_rem (int r') 2) * (s / 2) + ox"
  define Z' where "Z' = real r' * h + oz"
  define px where "px = x (center (shiftTriangle_p0 ox oz (cellPair_p0 this r c ! j)))"
  define pz where "pz = z (center (shiftTriangle_p0 ox oz (cellPair_p0 this r c ! j)))"
  have j: "j = 0 \<or> j = 1" and j': "j' = 0 \<or> j' = 1" using assms by auto
  have P: "(j = 0 \<and> px = X + s / 2 \<and> pz = Z + h / 3) \<or> (j = 1 \<and> px = X + s \<and> pz = Z + 2 * h / 3)"
    using j unfolding px_def pz_def
    by (auto simp: center_p0_major center_p0_minor Let_def s_def h_def X_def Z_def)
  have up: "coords (shiftTriangle_p0 ox oz (cellPair_p0 this r' c' ! 0))
              = [(X', Z'), (X' + s, Z'), (X' + s / 2, Z' + h)]"
    by (simp add: coords_p0_major Let_def s_def h_def X'_def Z'_def)
  have dn: "coords (shiftTriangle_p0 ox oz (cellPair_p0 this r' c' ! 1))
              = [(X' + s / 2, Z' + h), (X' + s, Z'), (X' + 3 * s / 2, Z' + h)]"
    by (simp add: coords_p0_minor Let_def s_def h_def X'_def Z'_def)
  have in_up: "pointInTriangle px pz (shiftTriangle_p0 ox oz (cellPair_p0 this r' c' ! 0))
                 = Inr (\<not> mixed (area2 (px, pz) (X', Z') (X' + s, Z'))
                                (area2 (px, pz) (X' + s, Z') (X' + s / 2, Z' + h))
                                (area2 (px, pz) (X' + s / 2, Z' + h) (X', Z')))"
    by (rule pointInTriangle_coords[OF up])
  have in_dn: "pointInTriangle px pz (shiftTriangle_p0 ox oz (cellPair_p0 this r' c' ! 1))
                 = Inr (\<not> mixed (area2 (px, pz) (X' + s / 2, Z' + h) (X' + s, Z'))
                                (area2 (px, pz) (X' + s, Z') (X' + 3 * s / 2, Z' + h))
                                (area2 (px, pz) (X' + 3 * s / 2, Z' + h) (X' + s / 2, Z' + h)))"
    by (rule pointInTriangle_coords[OF dn])
  have goal: "pointInTriangle px pz (shiftTriangle_p0 ox oz (cellPair_p0 this r' c' ! j'))
         = Inr (r' = r \<and> c' = c \<and> j' = j)"
  proof (cases "r' = r")
    case False
    have zin: "Z < pz" "pz < Z + h" using P h by auto
    have step: "Z' + h \<le> Z \<or> Z + h \<le> Z'"
      unfolding Z_def Z'_def using row_height_step[OF h, of r r' oz] False by auto
    show ?thesis
      using j' False other_row_mixed[OF s h zin step, of px X'] in_up in_dn by auto
  next
    case True
    have Z: "Z' = Z" and XX: "X - X' = real c * s - real c' * s"
      unfolding Z_def Z'_def X_def X'_def True by simp_all
    define t where "t = h * (X - X')"
    have t: "t = h * (X - X')" by (rule t_def)
    have a: "0 < s * h" using s h by simp
    have tc: "c' \<noteq> c \<Longrightarrow> s * h \<le> t \<or> t \<le> - (s * h)"
      unfolding t_def XX using row_step[OF s h, of c c'] by auto
    have t0: "c' = c \<Longrightarrow> t = 0"
      unfolding t_def XX by simp
    note m = same_row_centroid[OF s h t, of Z]
    from P j' show ?thesis
    proof (elim disjE conjE)
      assume "j = 0" "px = X + s / 2" "pz = Z + h / 3" "j' = 0"
      then show ?thesis
        using m(1) tc t0 a True in_up unfolding Z by (cases "c' = c") auto
    next
      assume "j = 0" "px = X + s / 2" "pz = Z + h / 3" "j' = 1"
      then show ?thesis
        using m(2) tc t0 a True in_dn unfolding Z by (cases "c' = c") auto
    next
      assume "j = 1" "px = X + s" "pz = Z + 2 * h / 3" "j' = 0"
      then show ?thesis
        using m(3) tc t0 a True in_up unfolding Z by (cases "c' = c") auto
    next
      assume "j = 1" "px = X + s" "pz = Z + 2 * h / 3" "j' = 1"
      then show ?thesis
        using m(4) tc t0 a True in_dn unfolding Z by (cases "c' = c") auto
    qed
  qed
  then show ?thesis unfolding px_def pz_def .
qed

lemma shifted_p0_mem:
  "t \<in> set (map (shiftTriangle_p0 ox oz) (tessellation_p0 this)) \<longleftrightarrow>
     (\<exists>r < gridHeight this. \<exists>c < gridWidth this. \<exists>j < 2.
        t = shiftTriangle_p0 ox oz (cellPair_p0 this r c ! j))"
proof
  assume "t \<in> set (map (shiftTriangle_p0 ox oz) (tessellation_p0 this))"
  then obtain u where u: "u \<in> set (tessellation_p0 this)" and t: "t = shiftTriangle_p0 ox oz u"
    by auto
  from u obtain r c where rc: "r < gridHeight this" "c < gridWidth this" "u \<in> set (cellPair_p0 this r c)"
    by (auto simp: tessellation_p0_mem)
  from rc(3) have "u = cellPair_p0 this r c ! 0 \<or> u = cellPair_p0 this r c ! 1"
    by (simp add: cellPair_p0_cases)
  then have "\<exists>j<2. u = cellPair_p0 this r c ! j"
    by (metis pos2 one_less_numeral_iff semiring_norm(76))
  then show "\<exists>r < gridHeight this. \<exists>c < gridWidth this. \<exists>j < 2.
        t = shiftTriangle_p0 ox oz (cellPair_p0 this r c ! j)"
    using rc(1,2) t by blast
next
  assume "\<exists>r < gridHeight this. \<exists>c < gridWidth this. \<exists>j < 2.
        t = shiftTriangle_p0 ox oz (cellPair_p0 this r c ! j)"
  then obtain r c j where rc: "r < gridHeight this" "c < gridWidth this" "j < 2"
    and t: "t = shiftTriangle_p0 ox oz (cellPair_p0 this r c ! j)"
    by blast
  have "cellPair_p0 this r c ! j \<in> set (cellPair_p0 this r c)"
    using rc(3) by (intro nth_mem) (simp add: cellPair_p0_length)
  then have "cellPair_p0 this r c ! j \<in> set (tessellation_p0 this)"
    using rc(1,2) by (auto simp: tessellation_p0_mem)
  then show "t \<in> set (map (shiftTriangle_p0 ox oz) (tessellation_p0 this))"
    using t by simp
qed

lemma cellPair_p0_nth_shape:
  assumes "j < 2"
  shows "length (vertices (cellPair_p0 this r c ! j)) = 3 \<and> length (chord (cellPair_p0 this r c ! j)) = 3
         \<and> row (cellPair_p0 this r c ! j) = r \<and> col (cellPair_p0 this r c ! j) = c
         \<and> type (cellPair_p0 this r c ! j) = (if j = 0 then ''major'' else ''minor'')"
  using assms by (auto simp: less_2_cases_iff cellPair_p0_def Let_def)

lemma shifted_p0_wellformed:
  assumes "t \<in> set (map (shiftTriangle_p0 ox oz) (tessellation_p0 this))"
  shows "length (vertices t) = 3"
  using assms unfolding shifted_p0_mem
  by (auto simp: shifted_p0_vertices_length cellPair_p0_nth_shape)

lemma centroid_scan_p0:
  assumes "0 < triangleSize this" "t \<in> set (map (shiftTriangle_p0 ox oz) (tessellation_p0 this))"
  shows "scanTriangles (x (center t)) (z (center t)) (map (shiftTriangle_p0 ox oz) (tessellation_p0 this))
           = Inr (Some t)"
proof -
  let ?F = "map (shiftTriangle_p0 ox oz) (tessellation_p0 this)"
  let ?P = "\<lambda>t'. pointInTriangle (x (center t)) (z (center t)) t' = Inr True"
  from assms(2)[unfolded shifted_p0_mem] obtain r c j
    where rc: "r < gridHeight this" "c < gridWidth this" "j < 2"
    and t: "t = shiftTriangle_p0 ox oz (cellPair_p0 this r c ! j)"
    by blast
  have own: "?P t"
    unfolding t using centroid_located_p0[OF assms(1) rc(3) rc(3), of ox oz r c r c] by simp
  have other: "\<forall>t' \<in> set ?F. ?P t' \<longrightarrow> t' = t"
  proof (intro ballI impI)
    fix t' assume F: "t' \<in> set ?F" and P: "?P t'"
    from F[unfolded shifted_p0_mem] obtain r' c' j'
      where j': "j' < 2" and t': "t' = shiftTriangle_p0 ox oz (cellPair_p0 this r' c' ! j')"
      by blast
    from P have "r' = r \<and> c' = c \<and> j' = j"
      unfolding t t' using centroid_located_p0[OF assms(1) rc(3) j', of ox oz r c r' c'] by simp
    then show "t' = t" using t t' by simp
  qed
  have "scanTriangles (x (center t)) (z (center t)) ?F = Inr (find ?P ?F)"
    by (intro scanTriangles_find ballI shifted_p0_wellformed)
  also have "find ?P ?F = Some t"
    using assms(2) own other by (rule find_unique)
  finally show ?thesis .
qed

text \<open>The version of \<^verbatim>\<open>src/unnamed/part_000\<close>: the grid, the shape and the order of the
  triangles, and the centroids of the centered lattice.\<close>

lemma p0_triangles:
  "\<exists>sys. TonnetzSystem_p0_new = Inr sys
     \<and> length (triangles sys) = 192
     \<and> (\<forall>r < 8. \<forall>c < 12.
           type (triangles sys ! (2 * (r * 12 + c))) = ''major''
         \<and> row (triangles sys ! (2 * (r * 12 + c))) = r
         \<and> col (triangles sys ! (2 * (r * 12 + c))) = c
         \<and> type (triangles sys ! (2 * (r * 12 + c) + 1)) = ''minor''
         \<and> row (triangles sys ! (2 * (r * 12 + c) + 1)) = r
         \<and> col (triangles sys ! (2 * (r * 12 + c) + 1)) = c)
     \<and> (\<forall>t \<in> set (triangles sys). length (vertices t) = 3 \<and> length (chord t) = 3
           \<and> (\<forall>n \<in> set (chord t). 60 \<le> n \<and> n \<le> 71)
           \<and> row t < 8 \<and> col t < 12)"
proof -
  let ?b = "withGrid_p0 TonnetzSystem_p0_fields"
  have len: "length (tessellation_p0 ?b) = 192" by (simp add: tessellation_p0_length)
  have ord: "type (tessellation_p0 ?b ! (2 * (r * 12 + c))) = ''major''
         \<and> row (tessellation_p0 ?b ! (2 * (r * 12 + c))) = r
         \<and> col (tessellation_p0 ?b ! (2 * (r * 12 + c))) = c
         \<and> type (tessellation_p0 ?b ! (2 * (r * 12 + c) + 1)) = ''minor''
         \<and> row (tessellation_p0 ?b ! (2 * (r * 12 + c) + 1)) = r
         \<and> col (tessellation_p0 ?b ! (2 * (r * 12 + c) + 1)) = c" if "r < 8" "c < 12" for r c
  proof -
    have a: "tessellation_p0 ?b ! (2 * (r * gridWidth ?b + c) + 0) = cellPair_p0 ?b r c ! 0"
      by (rule tessellation_p0_nth) (use that in simp_all)
    have b: "tessellation_p0 ?b ! (2 * (r * gridWidth ?b + c) + 1) = cellPair_p0 ?b r c ! 1"
      by (rule tessellation_p0_nth) (use that in simp_all)
    have a': "tessellation_p0 ?b ! (2 * (r * 12 + c)) = cellPair_p0 ?b r c ! 0"
      using a by simp
    have b': "tessellation_p0 ?b ! (2 * (r * 12 + c) + 1) = cellPair_p0 ?b r c ! 1"
      using b by simp
    show ?thesis
      unfolding a' b' using cellPair_p0_nth_shape[of 0 ?b r c] cellPair_p0_nth_shape[of 1 ?b r c]
      by simp
  qed
  have shape: "length (vertices t) = 3 \<and> length (chord t) = 3
           \<and> (\<forall>n \<in> set (chord t). 60 \<le> n \<and> n \<le> 71) \<and> row t < 8 \<and> col t < 12"
    if "t \<in> set (tessellation_p0 ?b)" for t
  proof -
    from that obtain r c where rc: "r < 8" "c < 12" "t \<in> set (cellPair_p0 ?b r c)"
      by (auto simp: tessellation_p0_mem)
    have cell: "0 \<le> grid ?b ! i ! k \<and> grid ?b ! i ! k < 12" if "i \<le> 8" "k \<le> 12" for i k
      using that by (simp add: withGrid_p0_consistent generateGrid_p0_cell)
    from cell[of r c] cell[of r "c + 1"] cell[of "r + 1" c] cell[of "r + 1" "c + 1"] rc
    show ?thesis
      by (auto simp: cellPair_p0_def Let_def)
  qed
  show ?thesis
    unfolding TonnetzSystem_p0_new_eq using len ord shape by simp
qed

lemma p0_centroids:
  "\<exists>sys. TonnetzSystem_p0_new = Inr sys
     \<and> (\<forall>t \<in> set (triangles (createTonnetzGrid_p0 sys)).
           findTriangleAtPosition (createTonnetzGrid_p0 sys) (x (center t)) (z (center t)) = Inr (Some t))"
proof -
  let ?b = "withGrid_p0 TonnetzSystem_p0_fields"
  have s: "0 < triangleSize ?b" by simp
  show ?thesis
    unfolding TonnetzSystem_p0_new_eq findTriangleAtPosition_def createTonnetzGrid_p0_def Let_def
    using centroid_scan_p0[OF s] by simp
qed

section \<open>The claims\<close>

text \<open>
  Claim C1. For every cell \<open>(row, col)\<close> with \<open>row < gridHeight\<close> and \<open>col < gridWidth\<close>,
  \<^verbatim>\<open>generateTriangles\<close> returns a list in which exactly two triangles carry that row
  and column, the major one first. The major triangle has the vertices of the grid
  positions \<open>(row, col)\<close>, \<open>(row, col+1)\<close>, \<open>(row+1, col)\<close> in that order, the chord
  \<open>[60 + pc(row, col), 60 + pc(row+1, col), 60 + pc(row, col+1)]\<close> and the name of
  \<open>pc(row, col)\<close>; the minor triangle has the vertices of \<open>(row+1, col)\<close>, \<open>(row, col+1)\<close>,
  \<open>(row+1, col+1)\<close>, the chord \<open>[60 + pc(row+1, col), 60 + pc(row, col+1), 60 + pc(row+1, col+1)]\<close>
  and the name of \<open>pc(row+1, col)\<close> followed by \<open>m\<close>. Each center is the sum of the three
  vertex positions divided by three. Here \<open>pc(i, j) = (4 i + 7 j) mod 12\<close> is the pitch
  class that \<^verbatim>\<open>generateGrid\<close> stores at \<open>(i, j)\<close>.
\<close>

theorem C1_cell_triangles:
  assumes "grid this = gridRows this" "majorThirdInterval this = 4" "fifthInterval this = 7"
    "r < gridHeight this" "c < gridWidth this"
  shows "\<exists>ts. generateTriangles this = Inr ts \<and> filter (\<lambda>t. row t = r \<and> col t = c) ts =
    [\<lparr>type = ''major'',
      vertices =
        [\<lparr>x = real c * triangleSize this + real r * (triangleSize this / 2),
          z = real r * (triangleSize this * sqrt 3 / 2),
          pitchClass = (int r * 4 + int c * 7) mod 12,
          noteName = getNoteName this ((int r * 4 + int c * 7) mod 12)\<rparr>,
         \<lparr>x = real (c + 1) * triangleSize this + real r * (triangleSize this / 2),
          z = real r * (triangleSize this * sqrt 3 / 2),
          pitchClass = (int r * 4 + int (c + 1) * 7) mod 12,
          noteName = getNoteName this ((int r * 4 + int (c + 1) * 7) mod 12)\<rparr>,
         \<lparr>x = real c * triangleSize this + real (r + 1) * (triangleSize this / 2),
          z = real (r + 1) * (triangleSize this * sqrt 3 / 2),
          pitchClass = (int (r + 1) * 4 + int c * 7) mod 12,
          noteName = getNoteName this ((int (r + 1) * 4 + int c * 7) mod 12)\<rparr>],
      center =
        \<lparr>x = ((real c * triangleSize this + real r * (triangleSize this / 2))
               + (real (c + 1) * triangleSize this + real r * (triangleSize this / 2))
               + (real c * triangleSize this + real (r + 1) * (triangleSize this / 2))) / 3,
         z = (real r * (triangleSize this * sqrt 3 / 2)
               + real r * (triangleSize this * sqrt 3 / 2)
               + real (r + 1) * (triangleSize this * sqrt 3 / 2)) / 3\<rparr>,
      chord = [60 + (int r * 4 + int c * 7) mod 12,
               60 + (int (r + 1) * 4 + int c * 7) mod 12,
               60 + (int r * 4 + int (c + 1) * 7) mod 12],
      chordName = getNoteName this ((int r * 4 + int c * 7) mod 12),
      row = r,
      col = c\<rparr>,
     \<lparr>type = ''minor'',
      vertices =
        [\<lparr>x = real c * triangleSize this + real (r + 1) * (triangleSize this / 2),
          z = real (r + 1) * (triangleSize this * sqrt 3 / 2),
          pitchClass = (int (r + 1) * 4 + int c * 7) mod 12,
          noteName = getNoteName this ((int (r + 1) * 4 + int c * 7) mod 12)\<rparr>,
         \<lparr>x = real (c + 1) * triangleSize this + real r * (triangleSize this / 2),
          z = real r * (triangleSize this * sqrt 3 / 2),
          pitchClass = (int r * 4 + int (c + 1) * 7) mod 12,
          noteName = getNoteName this ((int r * 4 + int (c + 1) * 7) mod 12)\<rparr>,
         \<lparr>x = real (c + 1) * triangleSize this + real (r + 1) * (triangleSize this / 2),
          z = real (r + 1) * (triangleSize this * sqrt 3 / 2),
          pitchClass = (int (r + 1) * 4 + int (c + 1) * 7) mod 12,
          noteName = getNoteName this ((int (r + 1) * 4 + int (c + 1) * 7) mod 12)\<rparr>],
      center =
        \<lparr>x = ((real c * triangleSize this + real (r + 1) * (triangleSize this / 2))
               + (real (c + 1) * triangleSize this + real r * (triangleSize this / 2))
               + (real (c + 1) * triangleSize this + real (r + 1) * (triangleSize this / 2))) / 3,
         z = (real (r + 1) * (triangleSize this * sqrt 3 / 2)
               + real r * (triangleSize this * sqrt 3 / 2)
               + real (r + 1) * (triangleSize this * sqrt 3 / 2)) / 3\<rparr>,
      chord = [60 + (int (r + 1) * 4 + int c * 7) mod 12,
               60 + (int r * 4 + int (c + 1) * 7) mod 12,
               60 + (int (r + 1) * 4 + int (c + 1) * 7) mod 12],
      chordName = getNoteName this ((int (r + 1) * 4 + int c * 7) mod 12) @ ''m'',
      row = r,
      col = c\<rparr>]"
  using generateTriangles_closed[OF assms(1)] tessellation_filter[OF assms(4,5)]
    cellPair_explicit[OF assms]
  by simp

theorem C1_cell_triangles_witness:
  "grid (withGrid TonnetzSystem_fields) = gridRows (withGrid TonnetzSystem_fields)
   \<and> majorThirdInterval (withGrid TonnetzSystem_fields) = 4
   \<and> fifthInterval (withGrid TonnetzSystem_fields) = 7
   \<and> 0 < gridHeight (withGrid TonnetzSystem_fields)
   \<and> 0 < gridWidth (withGrid TonnetzSystem_fields)
   \<and> (\<exists>ts. generateTriangles (withGrid TonnetzSystem_fields) = Inr ts
         \<and> map type (filter (\<lambda>t. row t = 0 \<and> col t = 0) ts) = [''major'', ''minor'']
         \<and> map chord (filter (\<lambda>t. row t = 0 \<and> col t = 0) ts) = [[60, 64, 67], [64, 67, 71]]
         \<and> map chordName (filter (\<lambda>t. row t = 0 \<and> col t = 0) ts) = [''C'', ''Em''])"
proof -
  have h: "grid (withGrid TonnetzSystem_fields) = gridRows (withGrid TonnetzSystem_fields)"
    by (rule withGrid_consistent)
  from C1_cell_triangles[OF h, of 0 0]
  obtain ts where ts: "generateTriangles (withGrid TonnetzSystem_fields) = Inr ts"
    and "map type (filter (\<lambda>t. row t = 0 \<and> col t = 0) ts) = [''major'', ''minor'']"
    and "map chord (filter (\<lambda>t. row t = 0 \<and> col t = 0) ts) = [[60, 64, 67], [64, 67, 71]]"
    and "map chordName (filter (\<lambda>t. row t = 0 \<and> col t = 0) ts) = [''C'', ''Em'']"
    by (auto simp: getNoteName_default)
  then show ?thesis using h by simp
qed

text \<open>
  Claim C2. For a grid with at least two rows (\<open>gridHeight\<close> at least 1) that fits a
  JavaScript array (fewer than \<open>2 ^ 32\<close> rows and columns, where the arithmetic on the
  indices is exact), \<^verbatim>\<open>generateGrid\<close> returns a grid, and for every row in
  \<open>[0, gridHeight]\<close> and column in \<open>[0, gridWidth]\<close> that grid has a cell there, whose pitch
  class is \<open>((row * 4 + col * 7) % 12 + 12) % 12\<close>, which is the residue of
  \<open>row * 4 + col * 7\<close> modulo 12: at least 0 and less than 12. (With \<open>gridHeight = 0\<close> the
  function throws before it returns: lemma \<open>generateGrid_throws\<close>.)
\<close>

theorem C2_grid_pitchClass:
  assumes "majorThirdInterval this = 4" "fifthInterval this = 7"
    "0 < gridHeight this" "gridHeight this < 2 ^ 32 - 1" "gridWidth this < 2 ^ 32 - 1"
    "r \<le> gridHeight this" "c \<le> gridWidth this"
  shows "\<exists>g. generateGrid this = Inr g
       \<and> gridAt g r c = Inr (g ! r ! c)
       \<and> gridcell.pitchClass (g ! r ! c) = js_rem (js_rem (int r * 4 + int c * 7) 12 + 12) 12
       \<and> gridcell.pitchClass (g ! r ! c) = (int r * 4 + int c * 7) mod 12
       \<and> 0 \<le> gridcell.pitchClass (g ! r ! c)
       \<and> gridcell.pitchClass (g ! r ! c) < 12"
proof (intro exI[of _ "gridRows this"] conjI)
  show "generateGrid this = Inr (gridRows this)"
    using assms(3) by (rule generateGrid_returns)
  show "gridAt (gridRows this) r c = Inr (gridRows this ! r ! c)"
    using assms(6,7) by (rule gridAt_gridRows)
  show "gridcell.pitchClass (gridRows this ! r ! c)
          = js_rem (js_rem (int r * 4 + int c * 7) 12 + 12) 12"
    using assms(1,2,6,7) by (simp add: gridRows_cell pitch_formula)
  then show "gridcell.pitchClass (gridRows this ! r ! c) = (int r * 4 + int c * 7) mod 12"
    by (simp add: pitch_formula)
  then show "0 \<le> gridcell.pitchClass (gridRows this ! r ! c)"
    and "gridcell.pitchClass (gridRows this ! r ! c) < 12"
    by simp_all
qed

theorem C2_grid_pitchClass_witness:
  "majorThirdInterval TonnetzSystem_fields = 4 \<and> fifthInterval TonnetzSystem_fields = 7
   \<and> 0 < gridHeight TonnetzSystem_fields
   \<and> gridHeight TonnetzSystem_fields < 2 ^ 32 - 1 \<and> gridWidth TonnetzSystem_fields < 2 ^ 32 - 1
   \<and> 8 \<le> gridHeight TonnetzSystem_fields \<and> 12 \<le> gridWidth TonnetzSystem_fields
   \<and> (\<exists>g. generateGrid TonnetzSystem_fields = Inr g \<and> gridcell.pitchClass (g ! 8 ! 12) = 8)"
  using C2_grid_pitchClass[of TonnetzSystem_fields 8 12]
  by (auto simp add: TonnetzSystem_fields_def)

text \<open>
  Claim C3, on \<^verbatim>\<open>generateTriangles\<close> of \<^verbatim>\<open>src/unnamed/part_000\<close>. The claim places the
  grid vertex \<open>(row, col)\<close> at \<open>x = col * triangleSize + row * (triangleSize / 2)\<close>,
  whichever triangle refers to it. In the 12 by 8 lattice of this version the grid vertex
  \<open>(2, 0)\<close> is the first vertex of the major triangle of cell \<open>(2, 0)\<close> (index 48), where
  it gets \<open>x = 0\<close>, and the first vertex of the minor triangle of cell \<open>(1, 0)\<close> (index
  25), where it gets \<open>x = 3\<close>, at the same \<open>z\<close>; the rule of the claim gives \<open>x = 3\<close>.
  (\<open>getVertexPosition_rule\<close> above shows that \<^verbatim>\<open>generateTriangles\<close> of \<^verbatim>\<open>src/game.js\<close>
  follows the rule of the claim.)
\<close>

theorem C3_parity_offset_p0:
  "\<exists>ts. generateTriangles_p0 (withGrid_p0 TonnetzSystem_p0_fields) = Inr ts
     \<and> type (ts ! 48) = ''major'' \<and> row (ts ! 48) = 2 \<and> col (ts ! 48) = 0
     \<and> x (vertices (ts ! 48) ! 0) = 0
     \<and> z (vertices (ts ! 48) ! 0) = 2 * (3 * sqrt 3 / 2)
     \<and> type (ts ! 25) = ''minor'' \<and> row (ts ! 25) = 1 \<and> col (ts ! 25) = 0
     \<and> x (vertices (ts ! 25) ! 0) = 3
     \<and> z (vertices (ts ! 25) ! 0) = 2 * (3 * sqrt 3 / 2)
     \<and> x (vertices (ts ! 48) ! 0) \<noteq> real 0 * 3 + real 2 * (3 / 2)"
proof -
  let ?sys = "withGrid_p0 TonnetzSystem_p0_fields"
  have ts: "generateTriangles_p0 ?sys = Inr (tessellation_p0 ?sys)"
    by (rule generateTriangles_p0_closed[OF p0_default_consistent])
  have "tessellation_p0 ?sys ! (2 * (2 * gridWidth ?sys + 0) + 0) = cellPair_p0 ?sys 2 0 ! 0"
    by (rule tessellation_p0_nth) simp_all
  then have a: "tessellation_p0 ?sys ! 48 = cellPair_p0 ?sys 2 0 ! 0" by simp
  have "tessellation_p0 ?sys ! (2 * (1 * gridWidth ?sys + 0) + 1) = cellPair_p0 ?sys 1 0 ! 1"
    by (rule tessellation_p0_nth) simp_all
  then have b: "tessellation_p0 ?sys ! 25 = cellPair_p0 ?sys 1 0 ! 1" by simp
  show ?thesis
    unfolding ts
    by (simp add: a b cellPair_p0_def Let_def mkVertex_p0_def js_rem_2)
qed






text \<open>
  Claim C6. In the game as constructed, and after any later events, for every triangle
  \<open>t\<close> of the centered triangle list \<^verbatim>\<open>findTriangleAtPosition(t.center.x, t.center.z)\<close>
  returns a triangle with the row, column and type of \<open>t\<close>.
\<close>

theorem C6_centroid_self_containment:
  "\<exists>g0. TonnetzGame_new = Inr g0
     \<and> (\<forall>es. \<exists>g. run es g0 = Inr g
           \<and> (\<forall>t \<in> set (triangles (tonnetz g)).
                 \<exists>t'. findTriangleAtPosition (tonnetz g) (x (center t)) (z (center t)) = Inr (Some t')
                    \<and> row t' = row t \<and> col t' = col t \<and> type t' = type t))"
proof -
  from TonnetzGame_new_tonnetz obtain g0 where g0: "TonnetzGame_new = Inr g0"
    and t0: "tonnetz g0 = (withGrid TonnetzSystem_fields)\<lparr>triangles :=
          map (shiftTriangle (- (12 * 3) / 2) (- (8 * (3 * sqrt 3 / 2)) / 2))
              (tessellation (withGrid TonnetzSystem_fields))\<rparr>"
    by blast
  have wf: "\<forall>t \<in> set (triangles (tonnetz g0)). length (vertices t) = 3"
    unfolding t0 using shifted_wellformed by simp
  have own: "findTriangleAtPosition (tonnetz g0) (x (center t)) (z (center t)) = Inr (Some t)"
    if "t \<in> set (triangles (tonnetz g0))" for t
  proof -
    have "0 < triangleSize (withGrid TonnetzSystem_fields)" by simp
    from centroid_scan[OF this, of t] that show ?thesis
      unfolding findTriangleAtPosition_def t0 by simp
  qed
  have "\<exists>g. run es g0 = Inr g
           \<and> (\<forall>t \<in> set (triangles (tonnetz g)).
                 \<exists>t'. findTriangleAtPosition (tonnetz g) (x (center t)) (z (center t)) = Inr (Some t')
                    \<and> row t' = row t \<and> col t' = col t \<and> type t' = type t)" for es
  proof -
    from run_tonnetz[OF wf, of es] obtain g where g: "run es g0 = Inr g" "tonnetz g = tonnetz g0"
      by blast
    show ?thesis using g own by auto
  qed
  with g0 show ?thesis by blast
qed

theorem C6_centroid_self_containment_witness:
  "\<exists>g0. TonnetzGame_new = Inr g0
     \<and> hd (triangles (tonnetz g0)) \<in> set (triangles (tonnetz g0))
     \<and> (\<exists>t'. findTriangleAtPosition (tonnetz g0)
                 (x (center (hd (triangles (tonnetz g0))))) (z (center (hd (triangles (tonnetz g0)))))
               = Inr (Some t')
            \<and> row t' = 0 \<and> col t' = 0 \<and> type t' = ''major'')"
proof -
  from C6_centroid_self_containment obtain g0 where g0: "TonnetzGame_new = Inr g0"
    and all: "\<forall>es. \<exists>g. run es g0 = Inr g
           \<and> (\<forall>t \<in> set (triangles (tonnetz g)).
                 \<exists>t'. findTriangleAtPosition (tonnetz g) (x (center t)) (z (center t)) = Inr (Some t')
                    \<and> row t' = row t \<and> col t' = col t \<and> type t' = type t)"
    by blast
  from all[rule_format, of "[]"]
  have own: "\<forall>t \<in> set (triangles (tonnetz g0)).
                 \<exists>t'. findTriangleAtPosition (tonnetz g0) (x (center t)) (z (center t)) = Inr (Some t')
                    \<and> row t' = row t \<and> col t' = col t \<and> type t' = type t"
    by simp
  from TonnetzGame_new_tonnetz obtain g1 where g1: "TonnetzGame_new = Inr g1"
    and t1: "tonnetz g1 = (withGrid TonnetzSystem_fields)\<lparr>triangles :=
          map (shiftTriangle (- (12 * 3) / 2) (- (8 * (3 * sqrt 3 / 2)) / 2))
              (tessellation (withGrid TonnetzSystem_fields))\<rparr>"
    by blast
  have "g1 = g0" using g0 unfolding g1 by simp
  then have t0: "tonnetz g0 = (withGrid TonnetzSystem_fields)\<lparr>triangles :=
          map (shiftTriangle (- (12 * 3) / 2) (- (8 * (3 * sqrt 3 / 2)) / 2))
              (tessellation (withGrid TonnetzSystem_fields))\<rparr>"
    using t1 by simp
  have ne: "triangles (tonnetz g0) \<noteq> []"
    unfolding t0 using default_first_triangle(1) by simp
  then have mem: "hd (triangles (tonnetz g0)) \<in> set (triangles (tonnetz g0))" by simp
  have key: "row (hd (triangles (tonnetz g0))) = 0 \<and> col (hd (triangles (tonnetz g0))) = 0
             \<and> type (hd (triangles (tonnetz g0))) = ''major''"
    unfolding t0 using default_first_triangle by (simp add: hd_map cellPair_types)
  from own mem key g0 show ?thesis by (metis (no_types, lifting))
qed

text \<open>
  Claim C7. When the constructor of the game has finished, and after any sequence of
  later events (keys, resizes, clicks on the start button, animation frames), the
  triangle list has the length of the list that \<^verbatim>\<open>generateTriangles\<close> built, and every
  center and every vertex is the one that was built, moved by
  \<open>(- (12 * 3) / 2, - (8 * (3 * sqrt 3 / 2)) / 2)\<close>, that is by
  \<open>(- width * triangleSize / 2, - height * triangleSize * sqrt 3 / 2 / 2)\<close>: the translation
  has been applied once and no later event applies it again.
\<close>

theorem C7_centering_once:
  "\<exists>built g0. generateTriangles (withGrid TonnetzSystem_fields) = Inr built
     \<and> TonnetzGame_new = Inr g0
     \<and> (\<forall>es. \<exists>g. run es g0 = Inr g
           \<and> gridWidth (tonnetz g) = 12 \<and> gridHeight (tonnetz g) = 8 \<and> triangleSize (tonnetz g) = 3
           \<and> length (triangles (tonnetz g)) = length built
           \<and> (\<forall>i < length built.
                 center (triangles (tonnetz g) ! i)
                   = \<lparr>x = x (center (built ! i)) + - (12 * 3) / 2,
                      z = z (center (built ! i)) + - (8 * (3 * sqrt 3 / 2)) / 2\<rparr>
               \<and> length (vertices (triangles (tonnetz g) ! i)) = length (vertices (built ! i))
               \<and> (\<forall>j < length (vertices (built ! i)).
                     x (vertices (triangles (tonnetz g) ! i) ! j)
                       = x (vertices (built ! i) ! j) + - (12 * 3) / 2
                   \<and> z (vertices (triangles (tonnetz g) ! i) ! j)
                       = z (vertices (built ! i) ! j) + - (8 * (3 * sqrt 3 / 2)) / 2)))"
proof -
  let ?built = "tessellation (withGrid TonnetzSystem_fields)"
  have b: "generateTriangles (withGrid TonnetzSystem_fields) = Inr ?built"
    by (rule generateTriangles_closed[OF withGrid_consistent])
  from TonnetzGame_new_tonnetz obtain g0 where g0: "TonnetzGame_new = Inr g0"
    and t0: "tonnetz g0 = (withGrid TonnetzSystem_fields)\<lparr>triangles :=
          map (shiftTriangle (- (12 * 3) / 2) (- (8 * (3 * sqrt 3 / 2)) / 2)) ?built\<rparr>"
    by blast
  have wf: "\<forall>t \<in> set (triangles (tonnetz g0)). length (vertices t) = 3"
    unfolding t0 using shifted_wellformed by simp
  have shifted: "center (triangles (tonnetz g0) ! i)
                   = \<lparr>x = x (center (?built ! i)) + - (12 * 3) / 2,
                      z = z (center (?built ! i)) + - (8 * (3 * sqrt 3 / 2)) / 2\<rparr>
               \<and> length (vertices (triangles (tonnetz g0) ! i)) = length (vertices (?built ! i))
               \<and> (\<forall>j < length (vertices (?built ! i)).
                     x (vertices (triangles (tonnetz g0) ! i) ! j)
                       = x (vertices (?built ! i) ! j) + - (12 * 3) / 2
                   \<and> z (vertices (triangles (tonnetz g0) ! i) ! j)
                       = z (vertices (?built ! i) ! j) + - (8 * (3 * sqrt 3 / 2)) / 2)"
    if "i < length ?built" for i
    unfolding t0 using that by (simp add: shiftTriangle_def shiftVertex_def)
  have "\<exists>g. run es g0 = Inr g
           \<and> gridWidth (tonnetz g) = 12 \<and> gridHeight (tonnetz g) = 8 \<and> triangleSize (tonnetz g) = 3
           \<and> length (triangles (tonnetz g)) = length ?built
           \<and> (\<forall>i < length ?built.
                 center (triangles (tonnetz g) ! i)
                   = \<lparr>x = x (center (?built ! i)) + - (12 * 3) / 2,
                      z = z (center (?built ! i)) + - (8 * (3 * sqrt 3 / 2)) / 2\<rparr>
               \<and> length (vertices (triangles (tonnetz g) ! i)) = length (vertices (?built ! i))
               \<and> (\<forall>j < length (vertices (?built ! i)).
                     x (vertices (triangles (tonnetz g) ! i) ! j)
                       = x (vertices (?built ! i) ! j) + - (12 * 3) / 2
                   \<and> z (vertices (triangles (tonnetz g) ! i) ! j)
                       = z (vertices (?built ! i) ! j) + - (8 * (3 * sqrt 3 / 2)) / 2))" for es
  proof -
    from run_tonnetz[OF wf, of es] obtain g where g: "run es g0 = Inr g" "tonnetz g = tonnetz g0"
      by blast
    have dims: "gridWidth (tonnetz g) = 12 \<and> gridHeight (tonnetz g) = 8 \<and> triangleSize (tonnetz g) = 3
           \<and> length (triangles (tonnetz g)) = length ?built"
      unfolding g(2) t0 by simp
    have all: "\<forall>i < length ?built.
                 center (triangles (tonnetz g) ! i)
                   = \<lparr>x = x (center (?built ! i)) + - (12 * 3) / 2,
                      z = z (center (?built ! i)) + - (8 * (3 * sqrt 3 / 2)) / 2\<rparr>
               \<and> length (vertices (triangles (tonnetz g) ! i)) = length (vertices (?built ! i))
               \<and> (\<forall>j < length (vertices (?built ! i)).
                     x (vertices (triangles (tonnetz g) ! i) ! j)
                       = x (vertices (?built ! i) ! j) + - (12 * 3) / 2
                   \<and> z (vertices (triangles (tonnetz g) ! i) ! j)
                       = z (vertices (?built ! i) ! j) + - (8 * (3 * sqrt 3 / 2)) / 2)"
      unfolding g(2) using shifted by blast
    show ?thesis
      using g(1) dims all by blast
  qed
  with b g0 show ?thesis by blast
qed

theorem C7_centering_once_witness:
  "\<exists>built g0 g. generateTriangles (withGrid TonnetzSystem_fields) = Inr built
     \<and> TonnetzGame_new = Inr g0
     \<and> run [KeyDown ''w'', AnimationFrame, StartClick, AnimationFrame] g0 = Inr g
     \<and> 0 < length built \<and> 0 < length (vertices (built ! 0))
     \<and> x (vertices (built ! 0) ! 0) = 0 \<and> z (vertices (built ! 0) ! 0) = 0
     \<and> x (vertices (triangles (tonnetz g) ! 0) ! 0) = - 18
     \<and> z (vertices (triangles (tonnetz g) ! 0) ! 0) = - (6 * sqrt 3)"
proof -
  from C7_centering_once obtain built g0
    where b: "generateTriangles (withGrid TonnetzSystem_fields) = Inr built"
      and g0: "TonnetzGame_new = Inr g0"
      and all: "\<forall>es. \<exists>g. run es g0 = Inr g
           \<and> gridWidth (tonnetz g) = 12 \<and> gridHeight (tonnetz g) = 8 \<and> triangleSize (tonnetz g) = 3
           \<and> length (triangles (tonnetz g)) = length built
           \<and> (\<forall>i < length built.
                 center (triangles (tonnetz g) ! i)
                   = \<lparr>x = x (center (built ! i)) + - (12 * 3) / 2,
                      z = z (center (built ! i)) + - (8 * (3 * sqrt 3 / 2)) / 2\<rparr>
               \<and> length (vertices (triangles (tonnetz g) ! i)) = length (vertices (built ! i))
               \<and> (\<forall>j < length (vertices (built ! i)).
                     x (vertices (triangles (tonnetz g) ! i) ! j)
                       = x (vertices (built ! i) ! j) + - (12 * 3) / 2
                   \<and> z (vertices (triangles (tonnetz g) ! i) ! j)
                       = z (vertices (built ! i) ! j) + - (8 * (3 * sqrt 3 / 2)) / 2))"
    by blast
  have built: "built = tessellation (withGrid TonnetzSystem_fields)"
    using b generateTriangles_closed[OF withGrid_consistent] by simp
  have len: "0 < length built" unfolding built by (simp add: tessellation_length)
  have v: "0 < length (vertices (built ! 0))"
    "x (vertices (built ! 0) ! 0) = 0" "z (vertices (built ! 0) ! 0) = 0"
    unfolding built using default_first_vertex by simp_all
  from all[rule_format, of "[KeyDown ''w'', AnimationFrame, StartClick, AnimationFrame]"]
  obtain g where g: "run [KeyDown ''w'', AnimationFrame, StartClick, AnimationFrame] g0 = Inr g"
    and sh: "\<forall>i < length built.
                 center (triangles (tonnetz g) ! i)
                   = \<lparr>x = x (center (built ! i)) + - (12 * 3) / 2,
                      z = z (center (built ! i)) + - (8 * (3 * sqrt 3 / 2)) / 2\<rparr>
               \<and> length (vertices (triangles (tonnetz g) ! i)) = length (vertices (built ! i))
               \<and> (\<forall>j < length (vertices (built ! i)).
                     x (vertices (triangles (tonnetz g) ! i) ! j)
                       = x (vertices (built ! i) ! j) + - (12 * 3) / 2
                   \<and> z (vertices (triangles (tonnetz g) ! i) ! j)
                       = z (vertices (built ! i) ! j) + - (8 * (3 * sqrt 3 / 2)) / 2)"
    by blast
  from sh[rule_format, OF len] v(1)
  have "x (vertices (triangles (tonnetz g) ! 0) ! 0) = x (vertices (built ! 0) ! 0) + - (12 * 3) / 2"
    "z (vertices (triangles (tonnetz g) ! 0) ! 0) = z (vertices (built ! 0) ! 0) + - (8 * (3 * sqrt 3 / 2)) / 2"
    by blast+
  then have "x (vertices (triangles (tonnetz g) ! 0) ! 0) = - 18"
    "z (vertices (triangles (tonnetz g) ! 0) ! 0) = - (6 * sqrt 3)"
    using v(2,3) by simp_all
  with b g0 g len v show ?thesis by blast
qed

text \<open>
  Claim C8, on the code. The claim gives \<^verbatim>\<open>getMajorTriad(row, col)\<close> the value
  \<open>[60 + pc, 60 + (pc + 4) mod 12, 60 + (pc + 7) mod 12]\<close> and \<^verbatim>\<open>getMinorTriad(row, col)\<close>
  the value \<open>[60 + pc, 60 + (pc + 3) mod 12, 60 + (pc + 7) mod 12]\<close>, the chords of the
  tessellation. In \<^verbatim>\<open>src/game.js\<close> the grid holds objects, and both functions add numbers
  to the object itself: for the cell \<open>(0, 0)\<close> of the constructed system they return three
  strings, where the claim gives \<open>[60, 64, 67]\<close> and \<open>[60, 63, 67]\<close>. In
  \<^verbatim>\<open>src/unnamed/part_000\<close> the grid holds numbers, and the functions add 4 (or 3) and 7
  without reducing modulo 12: for the cell \<open>(0, 1)\<close>, of pitch class 7, they return
  \<open>[67, 71, 74]\<close> and \<open>[67, 70, 74]\<close>, where the claim gives \<open>[67, 71, 62]\<close> and
  \<open>[67, 70, 62]\<close>, and where the major triangle of that cell (index 2 of the list) has the
  chord \<open>[67, 71, 62]\<close>.
\<close>

theorem C8_triads_by_cell:
  "(\<exists>sys. TonnetzSystem_new = Inr sys
      \<and> getMajorTriad sys 0 0
           = Inr [JStr ''60[object Object]'', JStr ''60[object Object]4'', JStr ''60[object Object]7'']
      \<and> getMinorTriad sys 0 0
           = Inr [JStr ''60[object Object]'', JStr ''60[object Object]3'', JStr ''60[object Object]7''])
   \<and> (\<exists>sys. TonnetzSystem_p0_new = Inr sys
      \<and> grid sys ! 0 ! 1 = 7
      \<and> getMajorTriad_p0 sys 0 1 = Inr [JNum 67, JNum 71, JNum 74]
      \<and> getMinorTriad_p0 sys 0 1 = Inr [JNum 67, JNum 70, JNum 74]
      \<and> chord (triangles sys ! 2) = [67, 71, 62])"
proof -
  let ?a = "withGrid TonnetzSystem_fields" and ?b = "withGrid_p0 TonnetzSystem_p0_fields"
  have ga: "grid (?a\<lparr>triangles := tessellation ?a\<rparr>) = gridRows ?a"
    by (simp add: withGrid_def)
  have ra: "gridRead (\<lambda>cell. JObject) (gridRows ?a) 0 0 = Inr JObject"
    by (rule gridRead_gridRows) simp_all
  have A: "getMajorTriad (?a\<lparr>triangles := tessellation ?a\<rparr>) 0 0
           = Inr [JStr ''60[object Object]'', JStr ''60[object Object]4'', JStr ''60[object Object]7'']"
    "getMinorTriad (?a\<lparr>triangles := tessellation ?a\<rparr>) 0 0
           = Inr [JStr ''60[object Object]'', JStr ''60[object Object]3'', JStr ''60[object Object]7'']"
    unfolding getMajorTriad_def getMinorTriad_def ga ra
    by (simp_all add: bind_def int_to_string_def nat_to_string_60)
  have gb: "grid (?b\<lparr>triangles := tessellation_p0 ?b\<rparr>) = generateGrid_p0 ?b"
    by (simp add: withGrid_p0_def)
  have cell: "generateGrid_p0 ?b ! 0 ! 1 = 7" "generateGrid_p0 ?b ! 1 ! 1 = 11"
    "generateGrid_p0 ?b ! 0 ! Suc (Suc 0) = 2"
    by (simp_all add: generateGrid_p0_cell)
  have rb: "gridRead JNum (generateGrid_p0 ?b) 0 1 = Inr (JNum 7)"
    using gridRead_generateGrid_p0[of 0 ?b 1 JNum] cell by simp
  have B: "getMajorTriad_p0 (?b\<lparr>triangles := tessellation_p0 ?b\<rparr>) 0 1 = Inr [JNum 67, JNum 71, JNum 74]"
    "getMinorTriad_p0 (?b\<lparr>triangles := tessellation_p0 ?b\<rparr>) 0 1 = Inr [JNum 67, JNum 70, JNum 74]"
    unfolding getMajorTriad_p0_def getMinorTriad_p0_def gb rb
    by (simp_all add: bind_def)
  have "tessellation_p0 ?b ! (2 * (0 * gridWidth ?b + 1) + 0) = cellPair_p0 ?b 0 1 ! 0"
    by (rule tessellation_p0_nth) simp_all
  then have "chord (tessellation_p0 ?b ! 2) = [67, 71, 62]"
    using cell by (simp add: cellPair_p0_def Let_def withGrid_p0_consistent)
  then have C: "chord (triangles (?b\<lparr>triangles := tessellation_p0 ?b\<rparr>) ! 2) = [67, 71, 62]"
    by simp
  have D: "grid (?b\<lparr>triangles := tessellation_p0 ?b\<rparr>) ! 0 ! 1 = 7"
    unfolding gb by (rule cell(1))
  show ?thesis
    unfolding TonnetzSystem_new_eq TonnetzSystem_p0_new_eq using A B C D by blast
qed

text \<open>
  Claim C9. Every triangle of the list that \<^verbatim>\<open>generateTriangles\<close> returns has exactly
  three vertices and a chord of exactly three notes, each between 60 and 71.
\<close>

theorem C9_triangle_shape:
  assumes "grid this = gridRows this"
  shows "\<exists>ts. generateTriangles this = Inr ts
           \<and> (\<forall>t \<in> set ts. length (vertices t) = 3 \<and> length (chord t) = 3
                 \<and> (\<forall>n \<in> set (chord t). 60 \<le> n \<and> n \<le> 71))"
proof -
  have "length (vertices t) = 3 \<and> length (chord t) = 3 \<and> (\<forall>n \<in> set (chord t). 60 \<le> n \<and> n \<le> 71)"
    if "t \<in> set (tessellation this)" for t
  proof -
    from that obtain r c where rc: "r < gridHeight this" "c < gridWidth this" "t \<in> set (cellPair this r c)"
      by (auto simp: tessellation_mem)
    show ?thesis
      using cellPair_shape[OF rc(3)] cellPair_chord_range[OF assms rc] by blast
  qed
  then show ?thesis using generateTriangles_closed[OF assms] by blast
qed

theorem C9_triangle_shape_witness:
  "grid (withGrid TonnetzSystem_fields) = gridRows (withGrid TonnetzSystem_fields)
   \<and> (\<exists>ts. generateTriangles (withGrid TonnetzSystem_fields) = Inr ts
         \<and> length ts = 192
         \<and> length (vertices (ts ! 0)) = 3 \<and> length (chord (ts ! 0)) = 3
         \<and> list_all (\<lambda>n. 60 \<le> n \<and> n \<le> 71) (chord (ts ! 0)))"
proof -
  have h: "grid (withGrid TonnetzSystem_fields) = gridRows (withGrid TonnetzSystem_fields)"
    by (rule withGrid_consistent)
  from C9_triangle_shape[OF h]
  obtain ts where ts: "generateTriangles (withGrid TonnetzSystem_fields) = Inr ts"
    and all: "\<forall>t \<in> set ts. length (vertices t) = 3 \<and> length (chord t) = 3
                 \<and> (\<forall>n \<in> set (chord t). 60 \<le> n \<and> n \<le> 71)"
    by blast
  have "ts = tessellation (withGrid TonnetzSystem_fields)"
    using ts generateTriangles_closed[OF h] by simp
  then have len: "length ts = 192" by (simp add: tessellation_length)
  then have "ts ! 0 \<in> set ts" by (intro nth_mem) simp
  with all show ?thesis using h ts len by (auto simp: list_all_iff)
qed

text \<open>
  Claim C10. \<^verbatim>\<open>generateTriangles\<close> returns \<open>2 * gridWidth * gridHeight\<close> triangles (192
  for the 12 by 8 grid); the cell \<open>(row, col)\<close> has its major triangle at index
  \<open>2 * (row * gridWidth + col)\<close> and its minor triangle right after it, so the cells come
  row by row; and the row and column of every triangle are below \<open>gridHeight\<close> and
  \<open>gridWidth\<close>.
\<close>

theorem C10_triangle_order:
  assumes "grid this = gridRows this"
  shows "\<exists>ts. generateTriangles this = Inr ts
           \<and> length ts = 2 * gridWidth this * gridHeight this
           \<and> (gridWidth this = 12 \<and> gridHeight this = 8 \<longrightarrow> length ts = 192)
           \<and> (\<forall>r < gridHeight this. \<forall>c < gridWidth this.
                 type (ts ! (2 * (r * gridWidth this + c))) = ''major''
               \<and> row (ts ! (2 * (r * gridWidth this + c))) = r
               \<and> col (ts ! (2 * (r * gridWidth this + c))) = c
               \<and> type (ts ! (2 * (r * gridWidth this + c) + 1)) = ''minor''
               \<and> row (ts ! (2 * (r * gridWidth this + c) + 1)) = r
               \<and> col (ts ! (2 * (r * gridWidth this + c) + 1)) = c)
           \<and> (\<forall>t \<in> set ts. row t < gridHeight this \<and> col t < gridWidth this)"
proof -
  have len: "length (tessellation this) = 2 * gridWidth this * gridHeight this"
    by (rule tessellation_length)
  have order: "type (tessellation this ! (2 * (r * gridWidth this + c))) = ''major''
               \<and> row (tessellation this ! (2 * (r * gridWidth this + c))) = r
               \<and> col (tessellation this ! (2 * (r * gridWidth this + c))) = c
               \<and> type (tessellation this ! (2 * (r * gridWidth this + c) + 1)) = ''minor''
               \<and> row (tessellation this ! (2 * (r * gridWidth this + c) + 1)) = r
               \<and> col (tessellation this ! (2 * (r * gridWidth this + c) + 1)) = c"
    if "r < gridHeight this" "c < gridWidth this" for r c
    using tessellation_nth[OF that, of 0] tessellation_nth[OF that, of 1]
    by (simp add: cellPair_types)
  have range: "row t < gridHeight this \<and> col t < gridWidth this" if "t \<in> set (tessellation this)" for t
    using that by (auto simp: tessellation_mem dest: cellPair_row_col)
  show ?thesis
    using generateTriangles_closed[OF assms] len order range by auto
qed

theorem C10_triangle_order_witness:
  "grid (withGrid TonnetzSystem_fields) = gridRows (withGrid TonnetzSystem_fields)
   \<and> (\<exists>ts. generateTriangles (withGrid TonnetzSystem_fields) = Inr ts
         \<and> length ts = 192
         \<and> type (ts ! 50) = ''major'' \<and> row (ts ! 50) = 2 \<and> col (ts ! 50) = 1
         \<and> type (ts ! 51) = ''minor'' \<and> row (ts ! 51) = 2 \<and> col (ts ! 51) = 1)"
proof -
  have h: "grid (withGrid TonnetzSystem_fields) = gridRows (withGrid TonnetzSystem_fields)"
    by (rule withGrid_consistent)
  from C10_triangle_order[OF h]
  obtain ts where ts: "generateTriangles (withGrid TonnetzSystem_fields) = Inr ts"
    and len: "length ts = 192"
    and ord: "\<forall>r < 8. \<forall>c < 12.
                 type (ts ! (2 * (r * 12 + c))) = ''major''
               \<and> row (ts ! (2 * (r * 12 + c))) = r
               \<and> col (ts ! (2 * (r * 12 + c))) = c
               \<and> type (ts ! (2 * (r * 12 + c) + 1)) = ''minor''
               \<and> row (ts ! (2 * (r * 12 + c) + 1)) = r
               \<and> col (ts ! (2 * (r * 12 + c) + 1)) = c"
    by auto
  have "(2::nat) < 8" "(1::nat) < 12" by simp_all
  with ord have "type (ts ! (2 * (2 * 12 + 1))) = ''major''
               \<and> row (ts ! (2 * (2 * 12 + 1))) = 2
               \<and> col (ts ! (2 * (2 * 12 + 1))) = 1
               \<and> type (ts ! (2 * (2 * 12 + 1) + 1)) = ''minor''
               \<and> row (ts ! (2 * (2 * 12 + 1) + 1)) = 2
               \<and> col (ts ! (2 * (2 * 12 + 1) + 1)) = 1"
    by blast
  then show ?thesis using h ts len by simp
qed

end
